theory Spec2Isabelle
  imports Complex_Main "HOL-Library.Multiset" "HOL-Library.Char_ord" "HOL-Library.List_Lexorder"
begin

unbundle bit_operations_syntax

section \<open>Deduplication engine: data model and match score\<close>

text \<open>
  Embedding of \<^verbatim>\<open>src/quake_stream/deduplicator.py\<close>. Python floats are read as
  real numbers (no rounding, no NaN, no infinities). A \<^verbatim>\<open>datetime\<close> is an integer
  number of microseconds since the epoch, which is the resolution Python keeps, so that
  the difference of two of them is a \<^verbatim>\<open>timedelta\<close> in microseconds and
  \<^verbatim>\<open>total_seconds()\<close> divides it by one million.
\<close>

record EventRecord =
  event_uid :: string
  source :: string
  origin_time_utc :: int
  latitude :: real
  longitude :: real
  depth_km :: real
  magnitude_value :: real
  magnitude_type :: string
  place :: "string option"
  region :: "string option"
  status :: string

record Cluster =
  members :: "EventRecord list"
  best_score :: real

definition MAX_TIME_DIFF_SEC :: real where
  "MAX_TIME_DIFF_SEC = 30"

definition MAX_DISTANCE_KM :: real where
  "MAX_DISTANCE_KM = 100"

definition MAX_MAG_DIFF :: real where
  "MAX_MAG_DIFF = 1 / 2"

definition MATCH_SCORE_THRESHOLD :: real where
  "MATCH_SCORE_THRESHOLD = 6 / 10"

definition total_seconds :: "int \<Rightarrow> real" where
  "total_seconds d = real_of_int d / 1000000"

definition radians :: "real \<Rightarrow> real" where
  "radians d = d * pi / 180"

text \<open>
  Modelled from the spec: \<^verbatim>\<open>haversine_km\<close> of \<^verbatim>\<open>quake_stream/geo.py\<close>, which
  \<^verbatim>\<open>deduplicator.py\<close> imports and which is not among the sources. The spec fixes the
  Earth radius at 6371.0 km and gives the great-circle formula
  \<^verbatim>\<open>2 R asin(sqrt(sin^2(dphi/2) + cos phi1 cos phi2 sin^2(dlambda/2)))\<close>; the arguments
  are decimal degrees, as the callers pass them.
\<close>

definition haversine_km :: "real \<Rightarrow> real \<Rightarrow> real \<Rightarrow> real \<Rightarrow> real" where
  "haversine_km lat1 lon1 lat2 lon2 =
     (let phi1 = radians lat1;
          phi2 = radians lat2;
          dphi = radians (lat2 - lat1);
          dlambda = radians (lon2 - lon1);
          a = (sin (dphi / 2))\<^sup>2 + cos phi1 * cos phi2 * (sin (dlambda / 2))\<^sup>2
      in 2 * 6371 * arcsin (sqrt a))"

definition compute_match_score :: "EventRecord \<Rightarrow> EventRecord \<Rightarrow> real" where
  "compute_match_score a b =
     (let dt = \<bar>total_seconds (origin_time_utc a - origin_time_utc b)\<bar> in
      if dt > MAX_TIME_DIFF_SEC then 0
      else
        let dist = haversine_km (latitude a) (longitude a) (latitude b) (longitude b) in
        if dist > MAX_DISTANCE_KM then 0
        else
          let dmag = \<bar>magnitude_value a - magnitude_value b\<bar> in
          if dmag > MAX_MAG_DIFF then 0
          else
            (4 / 10) * max 0 (1 - dt / MAX_TIME_DIFF_SEC)
            + (4 / 10) * max 0 (1 - dist / MAX_DISTANCE_KM)
            + (2 / 10) * max 0 (1 - dmag / MAX_MAG_DIFF))"


section \<open>Clustering\<close>

text \<open>
  Exceptions of the Python code are values: a function that can raise returns
  \<open>py_error + 'a\<close>, with \<open>Inl\<close> the exception.
\<close>

datatype py_error = IndexError | ValueError | ZeroDivisionError | RuntimeError

text \<open>\<^verbatim>\<open>Cluster.anchor\<close> is \<^verbatim>\<open>self.members[0]\<close>, which raises on an empty list.\<close>

definition anchor :: "Cluster \<Rightarrow> py_error + EventRecord" where
  "anchor c = (case members c of [] \<Rightarrow> Inl IndexError | m # _ \<Rightarrow> Inr m)"

text \<open>
  The inner \<^verbatim>\<open>for cluster in clusters\<close> loop of \<^verbatim>\<open>_sub_cluster_time_mag\<close>. The loop
  state is the pair \<^verbatim>\<open>(best_cluster, best_score)\<close>, written \<open>(best_cluster, best_sc)\<close>; the reference \<^verbatim>\<open>best_cluster\<close> is
  the position of that cluster in \<^verbatim>\<open>clusters\<close>, and \<open>i\<close> is the position of the
  cluster the loop is at.
\<close>

fun best_cluster_time_mag ::
  "EventRecord \<Rightarrow> Cluster list \<Rightarrow> nat \<Rightarrow> nat option \<times> real \<Rightarrow> py_error + (nat option \<times> real)" where
  "best_cluster_time_mag event [] i st = Inr st"
| "best_cluster_time_mag event (cluster # rest) i (best_cluster, best_sc) =
     (case anchor cluster of
        Inl e \<Rightarrow> Inl e
      | Inr anc \<Rightarrow>
          let dt = \<bar>total_seconds (origin_time_utc event - origin_time_utc anc)\<bar>;
              dmag = \<bar>magnitude_value event - magnitude_value anc\<bar>
          in if dt \<le> MAX_TIME_DIFF_SEC \<and> dmag \<le> MAX_MAG_DIFF then
               let score = compute_match_score event anc
               in if score \<ge> MATCH_SCORE_THRESHOLD \<and> score > best_sc
                  then best_cluster_time_mag event rest (Suc i) (Some i, score)
                  else best_cluster_time_mag event rest (Suc i) (best_cluster, best_sc)
             else best_cluster_time_mag event rest (Suc i) (best_cluster, best_sc))"

text \<open>The inner loop of \<^verbatim>\<open>_cluster_events_greedy\<close>, which has no gate before the score.\<close>

fun best_cluster_greedy ::
  "EventRecord \<Rightarrow> Cluster list \<Rightarrow> nat \<Rightarrow> nat option \<times> real \<Rightarrow> py_error + (nat option \<times> real)" where
  "best_cluster_greedy event [] i st = Inr st"
| "best_cluster_greedy event (cluster # rest) i (best_cluster, best_sc) =
     (case anchor cluster of
        Inl e \<Rightarrow> Inl e
      | Inr anc \<Rightarrow>
          let score = compute_match_score event anc
          in if score \<ge> MATCH_SCORE_THRESHOLD \<and> score > best_sc
             then best_cluster_greedy event rest (Suc i) (Some i, score)
             else best_cluster_greedy event rest (Suc i) (best_cluster, best_sc))"

text \<open>
  The tail of both outer loop bodies: the event is appended to the best cluster, whose
  \<^verbatim>\<open>best_score\<close> becomes the larger of the old one and the event's score, or a new
  cluster is appended (\<^verbatim>\<open>best_score\<close> defaults to 0.0).
\<close>

definition join_cluster :: "Cluster \<Rightarrow> EventRecord \<Rightarrow> real \<Rightarrow> Cluster" where
  "join_cluster c event score =
     c\<lparr>members := members c @ [event], best_score := max (best_score c) score\<rparr>"

definition assign_event :: "Cluster list \<Rightarrow> EventRecord \<Rightarrow> nat option \<times> real \<Rightarrow> Cluster list" where
  "assign_event clusters event st =
     (case fst st of
        Some i \<Rightarrow> clusters[i := join_cluster (clusters ! i) event (snd st)]
      | None \<Rightarrow> clusters @ [\<lparr>members = [event], best_score = 0\<rparr>])"

fun sub_cluster_loop :: "EventRecord list \<Rightarrow> Cluster list \<Rightarrow> py_error + Cluster list" where
  "sub_cluster_loop [] clusters = Inr clusters"
| "sub_cluster_loop (event # rest) clusters =
     (case best_cluster_time_mag event clusters 0 (None, 0) of
        Inl e \<Rightarrow> Inl e
      | Inr st \<Rightarrow> sub_cluster_loop rest (assign_event clusters event st))"

fun greedy_loop :: "EventRecord list \<Rightarrow> Cluster list \<Rightarrow> py_error + Cluster list" where
  "greedy_loop [] clusters = Inr clusters"
| "greedy_loop (event # rest) clusters =
     (case best_cluster_greedy event clusters 0 (None, 0) of
        Inl e \<Rightarrow> Inl e
      | Inr st \<Rightarrow> greedy_loop rest (assign_event clusters event st))"

text \<open>\<^verbatim>\<open>sorted(events, key=lambda e: e.origin_time_utc)\<close> is a stable sort, as \<open>sort_key\<close> is.\<close>

definition sub_cluster_time_mag :: "EventRecord list \<Rightarrow> py_error + Cluster list" where
  "sub_cluster_time_mag events = sub_cluster_loop (sort_key origin_time_utc events) []"

definition cluster_events_greedy :: "EventRecord list \<Rightarrow> py_error + Cluster list" where
  "cluster_events_greedy events = greedy_loop (sort_key origin_time_utc events) []"

text \<open>
  \<^verbatim>\<open>cluster_events\<close>. scikit-learn is not part of the repository: \<open>dbscan\<close> is \<open>None\<close>
  when the import fails, and otherwise the function from the time-sorted events to the
  labels \<^verbatim>\<open>fit_predict\<close> returns for their coordinates. \<^verbatim>\<open>spatial_groups\<close> is a
  dictionary, here an association list in insertion order, which is the order
  \<^verbatim>\<open>.values()\<close> iterates in; \<^verbatim>\<open>zip\<close> stops at the shorter list.
\<close>

fun setdefault_append :: "(int \<times> EventRecord list) list \<Rightarrow> int \<Rightarrow> EventRecord \<Rightarrow> (int \<times> EventRecord list) list" where
  "setdefault_append [] label event = [(label, [event])]"
| "setdefault_append ((k, v) # groups) label event =
     (if k = label then (k, v @ [event]) # groups
      else (k, v) # setdefault_append groups label event)"

fun group_by_label :: "(int \<times> EventRecord) list \<Rightarrow> (int \<times> EventRecord list) list \<Rightarrow> (int \<times> EventRecord list) list" where
  "group_by_label [] groups = groups"
| "group_by_label ((label, event) # rest) groups =
     group_by_label rest (setdefault_append groups label event)"

fun extend_sub_clusters :: "EventRecord list list \<Rightarrow> Cluster list \<Rightarrow> py_error + Cluster list" where
  "extend_sub_clusters [] clusters = Inr clusters"
| "extend_sub_clusters (ms # rest) clusters =
     (case sub_cluster_time_mag ms of
        Inl e \<Rightarrow> Inl e
      | Inr sub_clusters \<Rightarrow> extend_sub_clusters rest (clusters @ sub_clusters))"

definition cluster_events ::
  "(EventRecord list \<Rightarrow> int list) option \<Rightarrow> EventRecord list \<Rightarrow> py_error + Cluster list" where
  "cluster_events dbscan events =
     (if events = [] then Inr []
      else case dbscan of
        None \<Rightarrow> cluster_events_greedy events
      | Some fit_predict \<Rightarrow>
          let events_sorted = sort_key origin_time_utc events;
              spatial_labels = fit_predict events_sorted;
              spatial_groups = group_by_label (zip spatial_labels events_sorted) []
          in extend_sub_clusters (map snd spatial_groups) [])"

section \<open>SHA-256\<close>

text \<open>
  \<^verbatim>\<open>hashlib.sha256(data).hexdigest()\<close> is the Python standard library's SHA-256 (FIPS
  180-4), written out here so that identifiers can be computed. A 32-bit word is a
  natural number below \<open>2 ^ 32\<close>, a byte one below 256; the message schedule is kept with
  the most recent word first while it is extended.
\<close>

definition add32 :: "nat \<Rightarrow> nat \<Rightarrow> nat" where
  "add32 a b = (a + b) mod 4294967296"

definition rotr :: "nat \<Rightarrow> nat \<Rightarrow> nat" where
  "rotr n x = (x div 2 ^ n + (x mod 2 ^ n) * 2 ^ (32 - n)) mod 4294967296"

definition shr :: "nat \<Rightarrow> nat \<Rightarrow> nat" where
  "shr n x = x div 2 ^ n"

definition not32 :: "nat \<Rightarrow> nat" where
  "not32 x = 4294967295 - x"

definition Ch :: "nat \<Rightarrow> nat \<Rightarrow> nat \<Rightarrow> nat" where
  "Ch x y z = (x AND y) XOR (not32 x AND z)"

definition Maj :: "nat \<Rightarrow> nat \<Rightarrow> nat \<Rightarrow> nat" where
  "Maj x y z = (x AND y) XOR (x AND z) XOR (y AND z)"

definition Sigma0 :: "nat \<Rightarrow> nat" where
  "Sigma0 x = rotr 2 x XOR rotr 13 x XOR rotr 22 x"

definition Sigma1 :: "nat \<Rightarrow> nat" where
  "Sigma1 x = rotr 6 x XOR rotr 11 x XOR rotr 25 x"

definition sigma0 :: "nat \<Rightarrow> nat" where
  "sigma0 x = rotr 7 x XOR rotr 18 x XOR shr 3 x"

definition sigma1 :: "nat \<Rightarrow> nat" where
  "sigma1 x = rotr 17 x XOR rotr 19 x XOR shr 10 x"

text \<open>
  The round constants (the first 32 bits of the fractional parts of the cube roots of the
  first 64 primes) and the initial hash value (of the square roots of the first 8 primes),
  in decimal.
\<close>

definition K256 :: "nat list" where
  "K256 =
     [1116352408, 1899447441, 3049323471, 3921009573, 961987163, 1508970993,
      2453635748, 2870763221, 3624381080, 310598401, 607225278, 1426881987,
      1925078388, 2162078206, 2614888103, 3248222580, 3835390401, 4022224774,
      264347078, 604807628, 770255983, 1249150122, 1555081692, 1996064986,
      2554220882, 2821834349, 2952996808, 3210313671, 3336571891, 3584528711,
      113926993, 338241895, 666307205, 773529912, 1294757372, 1396182291,
      1695183700, 1986661051, 2177026350, 2456956037, 2730485921, 2820302411,
      3259730800, 3345764771, 3516065817, 3600352804, 4094571909, 275423344,
      430227734, 506948616, 659060556, 883997877, 958139571, 1322822218,
      1537002063, 1747873779, 1955562222, 2024104815, 2227730452, 2361852424,
      2428436474, 2756734187, 3204031479, 3329325298]"

definition H0 :: "nat list" where
  "H0 = [1779033703, 3144134277, 1013904242, 2773480762,
         1359893119, 2600822924, 528734635, 1541459225]"

text \<open>
  The next word of the message schedule,
  \<^verbatim>\<open>W[t] = sigma1(W[t-2]) + W[t-7] + sigma0(W[t-15]) + W[t-16]\<close>, from the words so far,
  the most recent first; \<open>extend\<close> adds one word for each element of its first argument.
\<close>

fun next_w :: "nat list \<Rightarrow> nat" where
  "next_w (w1 # w2 # w3 # w4 # w5 # w6 # w7 # w8 # w9 # w10 # w11 # w12 # w13 # w14 # w15 # w16 # ws) =
     add32 (add32 (add32 (sigma1 w2) w7) (sigma0 w15)) w16"
| "next_w ws = 0"

fun extend :: "nat list \<Rightarrow> nat list \<Rightarrow> nat list" where
  "extend [] ws = ws"
| "extend (k # ks) ws = extend ks (next_w ws # ws)"

definition schedule :: "nat list \<Rightarrow> nat list" where
  "schedule block = rev (extend (drop 16 K256) (rev block))"

text \<open>One round on the working variables \<open>[a, b, c, d, e, f, g, h]\<close>, with \<open>t1\<close> and \<open>t2\<close> the two temporaries.\<close>

fun sha_round2 :: "nat \<Rightarrow> nat \<Rightarrow> nat list \<Rightarrow> nat list" where
  "sha_round2 t1 t2 [a, b, c, d, e, f, g, h] = [add32 t1 t2, a, b, c, add32 d t1, e, f, g]"
| "sha_round2 t1 t2 st = st"

fun sha_round :: "nat list \<Rightarrow> nat \<times> nat \<Rightarrow> nat list" where
  "sha_round [a, b, c, d, e, f, g, h] (k, w) =
     sha_round2 (add32 (add32 (add32 (add32 h (Sigma1 e)) (Ch e f g)) k) w)
                (add32 (Sigma0 a) (Maj a b c)) [a, b, c, d, e, f, g, h]"
| "sha_round st kw = st"

fun sha_rounds :: "nat list \<Rightarrow> (nat \<times> nat) list \<Rightarrow> nat list" where
  "sha_rounds st [] = st"
| "sha_rounds st (kw # kws) = sha_rounds (sha_round st kw) kws"

definition compress :: "nat list \<Rightarrow> nat list \<Rightarrow> nat list" where
  "compress h block = map2 add32 h (sha_rounds h (zip K256 (schedule block)))"

text \<open>Bytes to big-endian words, words to blocks of sixteen, and the padding of a message.\<close>

fun be_words :: "nat list \<Rightarrow> nat list" where
  "be_words (b0 # b1 # b2 # b3 # bs) = (((b0 * 256 + b1) * 256 + b2) * 256 + b3) # be_words bs"
| "be_words bs = []"

fun sha_blocks :: "nat list \<Rightarrow> nat list list" where
  "sha_blocks (w1 # w2 # w3 # w4 # w5 # w6 # w7 # w8 # w9 # w10 # w11 # w12 # w13 # w14 # w15 # w16 # ws) =
     [w1, w2, w3, w4, w5, w6, w7, w8, w9, w10, w11, w12, w13, w14, w15, w16] # sha_blocks ws"
| "sha_blocks ws = []"

definition be64 :: "nat \<Rightarrow> nat list" where
  "be64 n = map (\<lambda>i. (n div 256 ^ i) mod 256) [7, 6, 5, 4, 3, 2, 1, 0]"

definition sha_pad :: "nat list \<Rightarrow> nat list" where
  "sha_pad msg =
     msg @ [128] @ replicate ((119 - length msg mod 64) mod 64) 0 @ be64 (8 * length msg)"

definition hex_digit :: "nat \<Rightarrow> char" where
  "hex_digit d = ''0123456789abcdef'' ! d"

definition hex32 :: "nat \<Rightarrow> string" where
  "hex32 w = map (\<lambda>i. hex_digit ((w div 16 ^ i) mod 16)) [7, 6, 5, 4, 3, 2, 1, 0]"

definition sha256_hexdigest :: "nat list \<Rightarrow> string" where
  "sha256_hexdigest data =
     concat (map hex32 (foldl compress H0 (sha_blocks (be_words (sha_pad data)))))"

text \<open>\<^verbatim>\<open>str.encode()\<close>: the UTF-8 bytes, which for ASCII text are the character codes.\<close>

definition encode :: "string \<Rightarrow> nat list" where
  "encode s = map of_char s"

section \<open>Region-aware source priority\<close>

text \<open>Embedding of \<^verbatim>\<open>src/quake_stream/region_priority.py\<close>.\<close>

definition classify_region :: "real \<Rightarrow> real \<Rightarrow> string" where
  "classify_region lat lon =
     (if - 170 \<le> lon \<and> lon \<le> - 30 then ''americas''
      else if - 30 < lon \<and> lon \<le> 45 \<and> lat \<ge> 30 then ''europe''
      else if - 20 \<le> lon \<and> lon \<le> 55 \<and> lat < 30 then ''africa''
      else if lon > 45 \<or> lon < - 170 then ''asia_pacific''
      else ''global'')"

definition REGION_PRIORITIES :: "(string \<times> string list) list" where
  "REGION_PRIORITIES =
     [(''americas'', [''usgs'', ''emsc'', ''gfz'', ''isc'', ''ipgp'', ''geonet'']),
      (''europe'', [''emsc'', ''gfz'', ''usgs'', ''isc'', ''ipgp'', ''geonet'']),
      (''africa'', [''isc'', ''emsc'', ''ipgp'', ''usgs'', ''gfz'', ''geonet'']),
      (''asia_pacific'', [''isc'', ''usgs'', ''geonet'', ''emsc'', ''gfz'', ''ipgp'']),
      (''global'', [''usgs'', ''emsc'', ''isc'', ''gfz'', ''ipgp'', ''geonet''])]"

definition get_source_priority :: "real \<Rightarrow> real \<Rightarrow> string list" where
  "get_source_priority lat lon =
     (let region = classify_region lat lon
      in case map_of REGION_PRIORITIES region of
           Some p \<Rightarrow> p
         | None \<Rightarrow> [''usgs'', ''emsc'', ''isc'', ''gfz'', ''ipgp'', ''geonet''])"

section \<open>Canonical record, unified identifier, weighted centroid\<close>

text \<open>
  \<^verbatim>\<open>list.index(x)\<close>: the first position of \<open>x\<close>, \<open>None\<close> where Python raises
  \<^verbatim>\<open>ValueError\<close>.
\<close>

fun py_index :: "'a list \<Rightarrow> 'a \<Rightarrow> nat option" where
  "py_index [] x = None"
| "py_index (y # ys) x =
     (if y = x then Some 0 else (case py_index ys x of None \<Rightarrow> None | Some i \<Rightarrow> Some (Suc i)))"

text \<open>
  \<^verbatim>\<open>min(iterable, key=f)\<close> keeps the first element and replaces it only by a later one
  whose key is strictly smaller; it raises \<^verbatim>\<open>ValueError\<close> on an empty iterable.
\<close>

fun min_key_from :: "('a \<Rightarrow> nat) \<Rightarrow> 'a \<Rightarrow> 'a list \<Rightarrow> 'a" where
  "min_key_from key best [] = best"
| "min_key_from key best (x # xs) =
     (if key x < key best then min_key_from key x xs else min_key_from key best xs)"

definition py_min_key :: "('a \<Rightarrow> nat) \<Rightarrow> 'a list \<Rightarrow> py_error + 'a" where
  "py_min_key key xs = (case xs of [] \<Rightarrow> Inl ValueError | x # rest \<Rightarrow> Inr (min_key_from key x rest))"

text \<open>The closure \<^verbatim>\<open>source_rank\<close> of \<^verbatim>\<open>_select_preferred\<close>.\<close>

definition source_rank :: "string list \<Rightarrow> EventRecord \<Rightarrow> nat" where
  "source_rank priority e =
     (case py_index priority (source e) of Some i \<Rightarrow> i | None \<Rightarrow> length priority)"

text \<open>
  \<^verbatim>\<open>sum(m.latitude for m in cluster.members) / len(cluster.members)\<close> and the same for
  the longitude: the division raises \<^verbatim>\<open>ZeroDivisionError\<close> on a cluster without
  members.
\<close>

definition avg_lat :: "Cluster \<Rightarrow> py_error + real" where
  "avg_lat cluster =
     (if length (members cluster) = 0 then Inl ZeroDivisionError
      else Inr (sum_list (map latitude (members cluster)) / real (length (members cluster))))"

definition avg_lon :: "Cluster \<Rightarrow> py_error + real" where
  "avg_lon cluster =
     (if length (members cluster) = 0 then Inl ZeroDivisionError
      else Inr (sum_list (map longitude (members cluster)) / real (length (members cluster))))"

definition select_preferred :: "Cluster \<Rightarrow> py_error + EventRecord" where
  "select_preferred cluster =
     (let reviewed = filter (\<lambda>m. status m = ''reviewed'') (members cluster);
          candidates = (if reviewed \<noteq> [] then reviewed else members cluster)
      in case avg_lat cluster of
           Inl e \<Rightarrow> Inl e
         | Inr alat \<Rightarrow>
             (case avg_lon cluster of
                Inl e \<Rightarrow> Inl e
              | Inr alon \<Rightarrow>
                  let priority = get_source_priority alat alon
                  in py_min_key (source_rank priority) candidates))"



text \<open>
  The weight \<^verbatim>\<open>_weighted_mean\<close> gives a member: \<^verbatim>\<open>max(1.0, len(priority) - rank)\<close>,
  where the difference is one of Python integers.
\<close>

definition member_weight :: "string list \<Rightarrow> EventRecord \<Rightarrow> real" where
  "member_weight priority member =
     (let rank = (case py_index priority (source member) of Some i \<Rightarrow> i | None \<Rightarrow> length priority)
      in max 1 (real_of_int (int (length priority) - int rank)))"

text \<open>
  The loop of \<^verbatim>\<open>_weighted_mean\<close> over the members; its state is
  \<^verbatim>\<open>(lat_sum, lon_sum, depth_sum, total_weight)\<close>.
\<close>

fun weighted_sums :: "string list \<Rightarrow> EventRecord list \<Rightarrow> real \<times> real \<times> real \<times> real \<Rightarrow> real \<times> real \<times> real \<times> real" where
  "weighted_sums priority [] st = st"
| "weighted_sums priority (member # rest) (lat_sum, lon_sum, depth_sum, total_weight) =
     (let weight = member_weight priority member
      in weighted_sums priority rest
           (lat_sum + latitude member * weight,
            lon_sum + longitude member * weight,
            depth_sum + depth_km member * weight,
            total_weight + weight))"

definition weighted_mean :: "Cluster \<Rightarrow> py_error + (real \<times> real \<times> real)" where
  "weighted_mean cluster =
     (case avg_lat cluster of
        Inl e \<Rightarrow> Inl e
      | Inr alat \<Rightarrow>
          (case avg_lon cluster of
             Inl e \<Rightarrow> Inl e
           | Inr alon \<Rightarrow>
               let priority = get_source_priority alat alon
               in case weighted_sums priority (members cluster) (0, 0, 0, 0) of
                    (lat_sum, lon_sum, depth_sum, total_weight) \<Rightarrow>
                      if total_weight = 0 then
                        (case anchor cluster of
                           Inl e \<Rightarrow> Inl e
                         | Inr m \<Rightarrow> Inr (latitude m, longitude m, depth_km m))
                      else Inr (lat_sum / total_weight, lon_sum / total_weight,
                                depth_sum / total_weight)))"

section \<open>Notions used to state the properties\<close>

text \<open>
  The three differences the match score is computed from, and the pairwise bound the
  thresholds stand for.
\<close>

definition time_diff_sec :: "EventRecord \<Rightarrow> EventRecord \<Rightarrow> real" where
  "time_diff_sec a b = \<bar>total_seconds (origin_time_utc a - origin_time_utc b)\<bar>"

definition distance_km :: "EventRecord \<Rightarrow> EventRecord \<Rightarrow> real" where
  "distance_km a b = haversine_km (latitude a) (longitude a) (latitude b) (longitude b)"

definition mag_diff :: "EventRecord \<Rightarrow> EventRecord \<Rightarrow> real" where
  "mag_diff a b = \<bar>magnitude_value a - magnitude_value b\<bar>"

definition within_thresholds :: "EventRecord \<Rightarrow> EventRecord \<Rightarrow> bool" where
  "within_thresholds a b \<longleftrightarrow>
     time_diff_sec a b \<le> 30 \<and> distance_km a b \<le> 100 \<and> mag_diff a b \<le> 1 / 2"

text \<open>Sample events: same place, chosen origin time (in microseconds) and magnitude.\<close>

definition sample_event :: "string \<Rightarrow> string \<Rightarrow> int \<Rightarrow> real \<Rightarrow> EventRecord" where
  "sample_event uid src t mag =
     \<lparr>event_uid = uid, source = src, origin_time_utc = t, latitude = 35, longitude = - 120,
      depth_km = 10, magnitude_value = mag, magnitude_type = ''mw'', place = None,
      region = None, status = ''automatic''\<rparr>"

text \<open>
  What the assignment loops keep true of every cluster: it has a first member, the anchor,
  and every later member is within the three thresholds of the anchor and not earlier
  than it.
\<close>

definition follows_anchor :: "EventRecord \<Rightarrow> EventRecord \<Rightarrow> bool" where
  "follows_anchor anc m \<longleftrightarrow> within_thresholds m anc \<and> origin_time_utc anc \<le> origin_time_utc m"

definition anchored :: "Cluster \<Rightarrow> bool" where
  "anchored c = (case members c of [] \<Rightarrow> False | anc # ms \<Rightarrow> list_all (follows_anchor anc) ms)"

text \<open>
  The invariant of the outer loops, on the clusters built so far and the events still to
  come: the remaining events are in time order, every cluster is anchored, and no member
  of a cluster is later than an event still to come.
\<close>

definition loop_inv :: "Cluster list \<Rightarrow> EventRecord list \<Rightarrow> bool" where
  "loop_inv clusters rest \<longleftrightarrow>
     sorted (map origin_time_utc rest) \<and> list_all anchored clusters \<and>
     (\<forall>c \<in> set clusters. \<forall>m \<in> set (members c). \<forall>e \<in> set rest.
        origin_time_utc m \<le> origin_time_utc e)"

text \<open>Sample events on the equator, at a chosen longitude, at time 0 with magnitude 5.\<close>

definition equator_event :: "string \<Rightarrow> string \<Rightarrow> real \<Rightarrow> EventRecord" where
  "equator_event uid src lon =
     \<lparr>event_uid = uid, source = src, origin_time_utc = 0, latitude = 0, longitude = lon,
      depth_km = 10, magnitude_value = 5, magnitude_type = ''mw'', place = None,
      region = None, status = ''automatic''\<rparr>"

text \<open>
  The candidate set of the canonical-record selection, as the specification words it:
  the reviewed members if any member is reviewed, else all members.
\<close>

definition candidates :: "Cluster \<Rightarrow> EventRecord list" where
  "candidates cluster =
     (if \<exists>m \<in> set (members cluster). status m = ''reviewed''
      then filter (\<lambda>m. status m = ''reviewed'') (members cluster)
      else members cluster)"

text \<open>A cluster of two reports of one event, the EMSC report inserted first.\<close>

definition two_source_cluster :: Cluster where
  "two_source_cluster =
     \<lparr>members = [sample_event ''emsc:eq1'' ''emsc'' 0 5, sample_event ''usgs:eq1'' ''usgs'' 0 5],
      best_score = 1\<rparr>"

text \<open>
  The same two reports with the EMSC report stored twice, as overlapping fetch windows
  leave it in the append-only raw store.
\<close>

definition duplicate_report_cluster :: Cluster where
  "duplicate_report_cluster =
     \<lparr>members = [sample_event ''emsc:eq1'' ''emsc'' 0 5, sample_event ''emsc:eq1'' ''emsc'' 0 5,
                 sample_event ''usgs:eq1'' ''usgs'' 0 5],
      best_score = 1\<rparr>"

text \<open>
  The score of an event against the anchor of a cluster, and the cluster both loops pick
  among those whose score reaches the threshold: the one of highest score, the first of
  them in order of creation.
\<close>

definition anchor_score :: "EventRecord \<Rightarrow> Cluster \<Rightarrow> real" where
  "anchor_score event c = (case members c of [] \<Rightarrow> 0 | anc # ms \<Rightarrow> compute_match_score event anc)"

definition qualifies :: "EventRecord \<Rightarrow> real \<Rightarrow> Cluster \<Rightarrow> bool" where
  "qualifies event best c \<longleftrightarrow>
     anchor_score event c \<ge> MATCH_SCORE_THRESHOLD \<and> anchor_score event c > best"

definition first_best :: "EventRecord \<Rightarrow> Cluster list \<Rightarrow> nat \<Rightarrow> bool" where
  "first_best event clusters j \<longleftrightarrow>
     j < length clusters
     \<and> (\<forall>k < length clusters. anchor_score event (clusters ! k) \<le> anchor_score event (clusters ! j))
     \<and> (\<forall>k < j. anchor_score event (clusters ! k) < anchor_score event (clusters ! j))"

text \<open>
  Three reports of one place: an anchor, a report 20 s later with magnitude 5.5, and a
  report exactly 30 s after the anchor with the anchor's magnitude.
\<close>

definition boundary_events :: "EventRecord list" where
  "boundary_events =
     [sample_event ''usgs:eq1'' ''usgs'' 0 5,
      sample_event ''emsc:eq2'' ''emsc'' 20000000 (11 / 2),
      sample_event ''gfz:eq1'' ''gfz'' 30000000 5]"

section \<open>Normalized events\<close>

text \<open>
  Modelled from the spec: the \<^verbatim>\<open>NormalizedEvent\<close> record of
  \<^verbatim>\<open>quake_stream/models_v2.py\<close>, which is not among the sources. The fields are
  those of section 3.1 of the specification, which are the keyword arguments of the
  constructor call in \<^verbatim>\<open>quakeml.py\<close>; the names carry the suffix \<open>_ne\<close> to keep
  them apart from the fields of \<open>EventRecord\<close>. Instants are integers (microseconds
  since the epoch, in UTC).
\<close>

record NormalizedEvent =
  event_uid_ne :: string
  source_ne :: string
  source_event_id_ne :: string
  origin_time_utc_ne :: int
  latitude_ne :: real
  longitude_ne :: real
  depth_km_ne :: real
  magnitude_value_ne :: real
  magnitude_type_ne :: string
  place_ne :: "string option"
  region_ne :: "string option"
  lat_error_km_ne :: "real option"
  lon_error_km_ne :: "real option"
  depth_error_km_ne :: "real option"
  mag_error_ne :: "real option"
  status_ne :: string
  author_ne :: "string option"
  fetched_at_ne :: int
  raw_payload_ne :: "string option"

section \<open>Python strings\<close>

text \<open>
  A Python \<^verbatim>\<open>str\<close> is a \<open>string\<close>, one \<open>char\<close> per character; the payloads
  of the claims are ASCII. \<^verbatim>\<open>str.strip()\<close> removes leading and trailing white space,
  which among the ASCII characters are the codes 9 to 13 and 28 to 32.
\<close>

definition is_space :: "char \<Rightarrow> bool" where
  "is_space c \<longleftrightarrow>
     c \<in> set [CHR 0x09, CHR 0x0A, CHR 0x0B, CHR 0x0C, CHR 0x0D,
              CHR 0x1C, CHR 0x1D, CHR 0x1E, CHR 0x1F, CHR 0x20]"

definition py_strip :: "string \<Rightarrow> string" where
  "py_strip s = rev (dropWhile is_space (rev (dropWhile is_space s)))"

text \<open>\<^verbatim>\<open>str.lower()\<close> on ASCII: the letters A to Z become a to z.\<close>

definition lower_char :: "char \<Rightarrow> char" where
  "lower_char c =
     (case map_of (zip ''ABCDEFGHIJKLMNOPQRSTUVWXYZ'' ''abcdefghijklmnopqrstuvwxyz'') c of
        Some l \<Rightarrow> l
      | None \<Rightarrow> c)"

definition py_lower :: "string \<Rightarrow> string" where
  "py_lower s = map lower_char s"

text \<open>\<^verbatim>\<open>s.startswith(sub)\<close> and \<^verbatim>\<open>sub in s\<close>.\<close>

definition starts_with :: "string \<Rightarrow> string \<Rightarrow> bool" where
  "starts_with sub s \<longleftrightarrow> take (length sub) s = sub"

fun py_contains :: "string \<Rightarrow> string \<Rightarrow> bool" where
  "py_contains sub [] = (sub = [])"
| "py_contains sub (c # cs) = (starts_with sub (c # cs) \<or> py_contains sub cs)"

text \<open>
  The text after the last occurrence of a separator, or the whole string when the
  separator does not occur: this is \<^verbatim>\<open>s.rsplit(sep, 1)[-1]\<close>, and also
  \<^verbatim>\<open>s.split(sep)[-1]\<close> for a separator that cannot overlap itself, as
  \<^verbatim>\<open>"evid="\<close> cannot.
\<close>

fun after_last :: "string \<Rightarrow> string \<Rightarrow> string" where
  "after_last sep [] = []"
| "after_last sep (c # cs) =
     (if py_contains sep cs then after_last sep cs
      else if starts_with sep (c # cs) then drop (length sep) (c # cs)
      else c # cs)"

text \<open>\<^verbatim>\<open>s.replace("Z", "+00:00")\<close>.\<close>

definition replace_Z :: "string \<Rightarrow> string" where
  "replace_Z s = concat (map (\<lambda>c. if c = CHR ''Z'' then ''+00:00'' else [c]) s)"

text \<open>\<^verbatim>\<open>s.split(".", 1)\<close> of a string that contains a dot: the parts before and after the first dot.\<close>

definition split_first_dot :: "string \<Rightarrow> string \<times> string" where
  "split_first_dot s = (takeWhile (\<lambda>c. c \<noteq> CHR ''.'') s, drop 1 (dropWhile (\<lambda>c. c \<noteq> CHR ''.'') s))"

text \<open>\<^verbatim>\<open>s.ljust(6, "0")[:6]\<close>.\<close>

definition ljust6 :: "string \<Rightarrow> string" where
  "ljust6 s = take 6 (s @ replicate (6 - length s) CHR ''0'')"

section \<open>The element tree\<close>

text \<open>
  \<^verbatim>\<open>xml.etree.ElementTree\<close> is the standard library's. An element has a tag, which
  for a namespaced element is \<^verbatim>\<open>{uri}local\<close>, attributes, an optional text and
  children in document order. The parser only uses paths that are sequences of child
  steps, and \<^verbatim>\<open>.//tag\<close>, which selects among all descendants in document order.
  A step \<^verbatim>\<open>bed:x\<close> resolved with the \<^verbatim>\<open>_NS\<close> map and the fallback path, in which
  \<^verbatim>\<open>bed:\<close> has been replaced by the namespace in braces, are the same qualified tag
  \<open>bed x\<close>.
\<close>

datatype element =
  Element (tag: string) (attrib: "(string \<times> string) list") (elem_text: "string option")
          (children: "element list")

definition bed :: "string \<Rightarrow> string" where
  "bed local = ''{http://quakeml.org/xmlns/bed/1.2}'' @ local"

fun findall_path :: "string list \<Rightarrow> element \<Rightarrow> element list" where
  "findall_path [] el = [el]"
| "findall_path (step # rest) el =
     concat (map (findall_path rest) (filter (\<lambda>c. tag c = step) (children el)))"

definition find_path :: "string list \<Rightarrow> element \<Rightarrow> element option" where
  "find_path path el = (case findall_path path el of [] \<Rightarrow> None | node # _ \<Rightarrow> Some node)"

text \<open>\<^verbatim>\<open>findtext\<close>: the text of the first match, the empty string if it has no text.\<close>

definition findtext_path :: "string list \<Rightarrow> element \<Rightarrow> string option" where
  "findtext_path path el =
     (case find_path path el of
        None \<Rightarrow> None
      | Some node \<Rightarrow> (case elem_text node of None \<Rightarrow> Some [] | Some t \<Rightarrow> Some t))"

fun descendants :: "element \<Rightarrow> element list" where
  "descendants (Element t a x cs) = concat (map (\<lambda>c. c # descendants c) cs)"

definition findall_descendants :: "string \<Rightarrow> element \<Rightarrow> element list" where
  "findall_descendants t root_el = filter (\<lambda>e. tag e = t) (descendants root_el)"

text \<open>\<^verbatim>\<open>el.get(key)\<close>, and \<^verbatim>\<open>el.get(key, "")\<close>.\<close>

definition get_attr :: "element \<Rightarrow> string \<Rightarrow> string option" where
  "get_attr el key = map_of (attrib el) key"

definition get_attr_default :: "element \<Rightarrow> string \<Rightarrow> string" where
  "get_attr_default el key = (case get_attr el key of None \<Rightarrow> [] | Some v \<Rightarrow> v)"

text \<open>
  What the parser takes from outside the repository: \<^verbatim>\<open>ET.fromstring\<close> (\<open>None\<close>
  where it raises \<^verbatim>\<open>ParseError\<close>), the built-in \<^verbatim>\<open>float\<close> and
  \<^verbatim>\<open>datetime.fromisoformat\<close> (\<open>None\<close> where they raise \<^verbatim>\<open>ValueError\<close>; the
  instant is in UTC, a time without zone being read as UTC as \<^verbatim>\<open>_parse_time\<close> does
  with \<^verbatim>\<open>replace(tzinfo=timezone.utc)\<close>).
\<close>

record pylib =
  fromstring :: "string \<Rightarrow> element option"
  py_float :: "string \<Rightarrow> real option"
  fromisoformat :: "string \<Rightarrow> int option"

section \<open>The QuakeML parser\<close>

text \<open>Embedding of \<^verbatim>\<open>src/quake_stream/parsers/quakeml.py\<close>.\<close>

definition MAG_PREFERENCE :: "string list" where
  "MAG_PREFERENCE = [''mw'', ''mb'', ''ms'']"

text \<open>
  \<^verbatim>\<open>_text\<close>: the stripped text of the first node at the path, if the node exists and
  its text is not empty; the second lookup is the fallback with the explicit namespace.
\<close>

definition text_at :: "element \<Rightarrow> string list \<Rightarrow> string option" where
  "text_at el path =
     (let lookup = (case find_path path el of
                      None \<Rightarrow> None
                    | Some node \<Rightarrow>
                        (case elem_text node of
                           None \<Rightarrow> None
                         | Some t \<Rightarrow> if t \<noteq> [] then Some (py_strip t) else None))
      in case lookup of Some t \<Rightarrow> Some t | None \<Rightarrow> lookup)"

text \<open>Python's truth of an optional string: neither \<^verbatim>\<open>None\<close> nor empty.\<close>

definition truthy :: "string option \<Rightarrow> bool" where
  "truthy s = (case s of None \<Rightarrow> False | Some t \<Rightarrow> t \<noteq> [])"

definition extract_event_id :: "string \<Rightarrow> string" where
  "extract_event_id public_id =
     (if public_id = [] then []
      else if py_contains ''evid='' public_id then after_last ''evid='' public_id
      else if py_contains ''/'' public_id then after_last ''/'' public_id
      else if py_contains ''#'' public_id then after_last ''#'' public_id
      else public_id)"

definition find_preferred :: "element \<Rightarrow> string \<Rightarrow> string option \<Rightarrow> element option" where
  "find_preferred event_el t preferred_id =
     (let elements = findall_path [t] event_el;
          elements = (if elements = [] then findall_path [t] event_el else elements)
      in if elements = [] then None
         else if truthy preferred_id then
           (case List.find (\<lambda>el. get_attr el ''publicID'' = preferred_id) elements of
              Some el \<Rightarrow> Some el
            | None \<Rightarrow> Some (hd elements))
         else Some (hd elements))"

text \<open>The closure \<^verbatim>\<open>score\<close> of \<^verbatim>\<open>_select_best_magnitude\<close>.\<close>

definition mag_score :: "element \<Rightarrow> nat" where
  "mag_score mag_el =
     (let mt = text_at mag_el [bed ''type'']
      in if truthy mt then
           (let mt' = py_lower (the mt)
            in if mt' \<in> set MAG_PREFERENCE
               then (case py_index MAG_PREFERENCE mt' of Some i \<Rightarrow> i | None \<Rightarrow> length MAG_PREFERENCE)
               else length MAG_PREFERENCE)
         else length MAG_PREFERENCE)"

definition select_best_magnitude :: "element \<Rightarrow> element option" where
  "select_best_magnitude event_el =
     (let magnitudes = findall_path [bed ''magnitude''] event_el;
          magnitudes = (if magnitudes = [] then findall_path [bed ''magnitude''] event_el
                        else magnitudes)
      in if magnitudes = [] then None
         else (case py_min_key mag_score magnitudes of Inl e \<Rightarrow> None | Inr m \<Rightarrow> Some m))"

definition map_status :: "string option \<Rightarrow> string option \<Rightarrow> string" where
  "map_status eval_mode eval_status =
     (let by_status =
            (if truthy eval_status then
               (let st = py_lower (the eval_status)
                in if st \<in> {''reviewed'', ''confirmed'', ''final''} then ''reviewed''
                   else ''automatic'')
             else ''automatic'')
      in if truthy eval_mode then
           (let mode = py_lower (the eval_mode)
            in if mode = ''manual'' then ''reviewed''
               else if mode = ''automatic'' then ''automatic''
               else by_status)
         else by_status)"

text \<open>
  \<^verbatim>\<open>_extract_description\<close>: four loops over the \<^verbatim>\<open>description\<close> children, each
  returning at its first hit.
\<close>

definition region_type :: "string \<Rightarrow> bool" where
  "region_type dtype \<longleftrightarrow> py_lower dtype \<in> {''flinn-engdahl region'', ''region name''}"

definition extract_description :: "element \<Rightarrow> string option" where
  "extract_description event_el =
     (let descs = findall_path [bed ''description''] event_el;
          loop1 = List.find (\<lambda>desc.
                    truthy (findtext_path [bed ''type''] desc)
                    \<and> region_type (the (findtext_path [bed ''type''] desc))
                    \<and> truthy (findtext_path [bed ''text''] desc)) descs;
          loop2 = List.find (\<lambda>desc.
                    (case (find_path [bed ''type''] desc, find_path [bed ''text''] desc) of
                       (Some dtype_el, Some text_el) \<Rightarrow>
                         truthy (elem_text dtype_el) \<and> region_type (the (elem_text dtype_el))
                     | _ \<Rightarrow> False)) descs;
          loop3 = List.find (\<lambda>desc. truthy (findtext_path [bed ''text''] desc)) descs;
          loop4 = List.find (\<lambda>desc.
                    (case find_path [bed ''text''] desc of
                       Some text_el \<Rightarrow> truthy (elem_text text_el)
                     | None \<Rightarrow> False)) descs
      in case loop1 of
           Some desc \<Rightarrow> findtext_path [bed ''text''] desc
         | None \<Rightarrow>
            (case loop2 of
               Some desc \<Rightarrow> elem_text (the (find_path [bed ''text''] desc))
             | None \<Rightarrow>
                (case loop3 of
                   Some desc \<Rightarrow> findtext_path [bed ''text''] desc
                 | None \<Rightarrow>
                    (case loop4 of
                       Some desc \<Rightarrow> elem_text (the (find_path [bed ''text''] desc))
                     | None \<Rightarrow> None))))"

definition float_or_none :: "pylib \<Rightarrow> element \<Rightarrow> string list \<Rightarrow> real option" where
  "float_or_none lib el path =
     (let txt = text_at el path
      in if truthy txt then py_float lib (the txt) else None)"

text \<open>
  \<^verbatim>\<open>_parse_time\<close>. The loop over the part after the dot stops at the first sign
  character (the second disjunct of its test, \<^verbatim>\<open>rest[i:] == "+00:00"\<close>, starts with one).
\<close>

definition parse_time :: "pylib \<Rightarrow> string \<Rightarrow> py_error + int" where
  "parse_time lib time_str0 =
     (let time_str = replace_Z time_str0;
          time_str =
            (if CHR ''.'' \<in> set time_str then
               (let (base, rest) = split_first_dot time_str;
                    is_sign = (\<lambda>ch. ch = CHR ''+'' \<or> ch = CHR ''-'');
                    frac = takeWhile (\<lambda>ch. \<not> is_sign ch) rest;
                    tz_suffix = dropWhile (\<lambda>ch. \<not> is_sign ch) rest
                in base @ ''.'' @ ljust6 frac @ tz_suffix)
             else time_str)
      in case fromisoformat lib time_str of None \<Rightarrow> Inl ValueError | Some t \<Rightarrow> Inr t)"

text \<open>\<^verbatim>\<open>float(s)\<close>, which raises \<^verbatim>\<open>ValueError\<close> on a string that is not a number.\<close>

definition float_of :: "pylib \<Rightarrow> string \<Rightarrow> py_error + real" where
  "float_of lib s = (case py_float lib s of None \<Rightarrow> Inl ValueError | Some x \<Rightarrow> Inr x)"

text \<open>
  \<^verbatim>\<open>_parse_event\<close>. \<open>Inr None\<close> is the return value \<^verbatim>\<open>None\<close>, \<open>Inl\<close> an
  exception. The four steps that can raise are chained here in the order of the source.
\<close>

definition parse_event :: "pylib \<Rightarrow> string \<Rightarrow> element \<Rightarrow> int \<Rightarrow> py_error + NormalizedEvent option" where
  "parse_event lib default_source event_el fetched_at =
     (let public_id = get_attr_default event_el ''publicID'';
          source_event_id = extract_event_id public_id
      in if source_event_id = [] then Inr None
      else
      let pref_origin_id = text_at event_el [bed ''preferredOriginID''];
          pref_mag_id = text_at event_el [bed ''preferredMagnitudeID'']
      in case find_preferred event_el (bed ''origin'') pref_origin_id of
        None \<Rightarrow> Inr None
      | Some origin \<Rightarrow>
      (case (if truthy pref_mag_id then find_preferred event_el (bed ''magnitude'') pref_mag_id
             else select_best_magnitude event_el) of
        None \<Rightarrow> Inr None
      | Some magnitude_el \<Rightarrow>
      let time_str = text_at origin [bed ''time'', bed ''value'']
      in if \<not> truthy time_str then Inr None
      else
      (case parse_time lib (the time_str) of
        Inl e \<Rightarrow> Inl e
      | Inr origin_time \<Rightarrow>
      let lat_str = text_at origin [bed ''latitude'', bed ''value''];
          lon_str = text_at origin [bed ''longitude'', bed ''value''];
          depth_str = text_at origin [bed ''depth'', bed ''value'']
      in if \<not> truthy lat_str \<or> \<not> truthy lon_str then Inr None
      else
      (case float_of lib (the lat_str) of
        Inl e \<Rightarrow> Inl e
      | Inr lat \<Rightarrow>
      (case float_of lib (the lon_str) of
        Inl e \<Rightarrow> Inl e
      | Inr lon0 \<Rightarrow>
      (case (if truthy depth_str
             then (case float_of lib (the depth_str) of Inl e \<Rightarrow> Inl e | Inr d \<Rightarrow> Inr (d / 1000))
             else Inr 0) of
        Inl e \<Rightarrow> Inl e
      | Inr depth \<Rightarrow>
      let lon = (if lon0 > 180 then lon0 - 360 else if lon0 < - 180 then lon0 + 360 else lon0);
          mag_str = text_at magnitude_el [bed ''mag'', bed ''value''];
          mag_type_str = text_at magnitude_el [bed ''type'']
      in if \<not> truthy mag_str then Inr None
      else
      (case float_of lib (the mag_str) of
        Inl e \<Rightarrow> Inl e
      | Inr mag \<Rightarrow>
      let mag_type = py_lower (if truthy mag_type_str then the mag_type_str else ''ml'');
          eval_mode = text_at origin [bed ''evaluationMode''];
          eval_status = text_at origin [bed ''evaluationStatus''];
          st = map_status eval_mode eval_status;
          plc = extract_description event_el;
          lat_error = float_or_none lib origin [bed ''latitude'', bed ''uncertainty''];
          lon_error = float_or_none lib origin [bed ''longitude'', bed ''uncertainty''];
          depth_error = map_option (\<lambda>d. d / 1000)
                          (float_or_none lib origin [bed ''depth'', bed ''uncertainty'']);
          mag_error = float_or_none lib magnitude_el [bed ''mag'', bed ''uncertainty''];
          author_el = find_path [bed ''creationInfo'', bed ''author''] origin;
          author_el = (case author_el of
                         None \<Rightarrow> find_path [bed ''creationInfo'', bed ''author''] origin
                       | Some el \<Rightarrow> Some el);
          author = (case author_el of
                      None \<Rightarrow> None
                    | Some el \<Rightarrow> if truthy (elem_text el) then elem_text el else None)
      in Inr (Some
           \<lparr>event_uid_ne = default_source @ '':'' @ source_event_id,
            source_ne = default_source,
            source_event_id_ne = source_event_id,
            origin_time_utc_ne = origin_time,
            latitude_ne = lat,
            longitude_ne = lon,
            depth_km_ne = depth,
            magnitude_value_ne = mag,
            magnitude_type_ne = mag_type,
            place_ne = plc,
            region_ne = plc,
            lat_error_km_ne = lat_error,
            lon_error_km_ne = lon_error,
            depth_error_km_ne = depth_error,
            mag_error_ne = mag_error,
            status_ne = st,
            author_ne = author,
            fetched_at_ne = fetched_at,
            raw_payload_ne = Some []\<rparr>))))))))"

text \<open>
  The loop of \<^verbatim>\<open>parse\<close> over the event elements: an event that returns \<^verbatim>\<open>None\<close> or
  raises one of the four caught exceptions is skipped. The model raises no other.
\<close>

fun parse_events :: "pylib \<Rightarrow> string \<Rightarrow> element list \<Rightarrow> int \<Rightarrow> NormalizedEvent list" where
  "parse_events lib default_source [] fetched_at = []"
| "parse_events lib default_source (event_el # rest) fetched_at =
     (case parse_event lib default_source event_el fetched_at of
        Inr (Some parsed) \<Rightarrow> parsed # parse_events lib default_source rest fetched_at
      | _ \<Rightarrow> parse_events lib default_source rest fetched_at)"

text \<open>
  \<^verbatim>\<open>QuakeMLParser.parse\<close>; the result is \<open>Inr\<close> of the events, or \<open>Inl\<close> of the
  message of an exception that leaves the method, of which the model has none: a
  \<^verbatim>\<open>ParseError\<close> of \<^verbatim>\<open>ET.fromstring\<close> is caught and gives the empty list.
\<close>

definition QuakeMLParser_parse :: "pylib \<Rightarrow> string \<Rightarrow> string \<Rightarrow> int \<Rightarrow> string + NormalizedEvent list" where
  "QuakeMLParser_parse lib default_source raw_payload fetched_at =
     (if raw_payload = [] \<or> py_strip raw_payload = [] then Inr []
      else case fromstring lib raw_payload of
        None \<Rightarrow> Inr []
      | Some root_el \<Rightarrow>
          let event_elements = findall_descendants (bed ''event'') root_el;
              event_elements = (if event_elements = [] then findall_descendants (bed ''event'') root_el
                                else event_elements);
              event_elements = (if event_elements = [] then findall_descendants ''event'' root_el
                                else event_elements)
          in Inr (parse_events lib default_source event_elements fetched_at))"

section \<open>A sample QuakeML event\<close>

text \<open>
  The \<^verbatim>\<open>event\<close> element of \<^verbatim>\<open>SAMPLE_QUAKEML_ISC\<close> in
  \<^verbatim>\<open>tests/test_quakeml_parser.py\<close>, as \<^verbatim>\<open>ET.fromstring\<close> builds it: no
  \<^verbatim>\<open>preferredMagnitudeID\<close>, one origin, and three magnitudes mb 4.8, Mw 5.1 and
  Ms 4.5 in this order. An element with children has the white space before its first
  child as text.
\<close>

definition leaf :: "string \<Rightarrow> string \<Rightarrow> element" where
  "leaf local txt = Element (bed local) [] (Some txt) []"

definition node :: "string \<Rightarrow> (string \<times> string) list \<Rightarrow> element list \<Rightarrow> element" where
  "node local attrs cs = Element (bed local) attrs (Some [CHR 0x0A, CHR 0x20, CHR 0x20]) cs"

definition sample_magnitude :: "string \<Rightarrow> string \<Rightarrow> string \<Rightarrow> string \<Rightarrow> element" where
  "sample_magnitude public_id val unc mtype =
     node ''magnitude'' [(''publicID'', public_id)]
       [node ''mag'' [] [leaf ''value'' val, leaf ''uncertainty'' unc], leaf ''type'' mtype]"

definition sample_isc_origin :: element where
  "sample_isc_origin =
     node ''origin'' [(''publicID'', ''smi:ISC/origid=100001'')]
       [node ''time'' [] [leaf ''value'' ''2024-01-15T12:00:00.000Z''],
        node ''latitude'' [] [leaf ''value'' ''-1.5'', leaf ''uncertainty'' ''0.05''],
        node ''longitude'' [] [leaf ''value'' ''29.2'', leaf ''uncertainty'' ''0.08''],
        node ''depth'' [] [leaf ''value'' ''15000'', leaf ''uncertainty'' ''3000''],
        leaf ''evaluationMode'' ''manual'',
        leaf ''evaluationStatus'' ''reviewed'',
        node ''creationInfo'' [] [leaf ''author'' ''ISC'']]"

definition sample_isc_event :: element where
  "sample_isc_event =
     node ''event'' [(''publicID'', ''smi:ISC/evid=600516598'')]
       [sample_isc_origin,
        sample_magnitude ''smi:ISC/magid=300001'' ''4.8'' ''0.2'' ''mb'',
        sample_magnitude ''smi:ISC/magid=300002'' ''5.1'' ''0.15'' ''Mw'',
        sample_magnitude ''smi:ISC/magid=300003'' ''4.5'' ''0.3'' ''Ms'',
        node ''description'' []
          [leaf ''type'' ''Flinn-Engdahl region'', leaf ''text'' ''Lake Kivu Region'']]"

text \<open>
  The values \<^verbatim>\<open>float\<close> and \<^verbatim>\<open>datetime.fromisoformat\<close> give on the strings of the
  sample, and an \<^verbatim>\<open>ET.fromstring\<close> that rejects every payload.
\<close>

definition sample_lib :: pylib where
  "sample_lib =
     \<lparr>fromstring = (\<lambda>payload. None),
      py_float = map_of
        [(''4.8'', 48 / 10), (''5.1'', 51 / 10), (''4.5'', 45 / 10), (''0.2'', 2 / 10),
         (''0.15'', 15 / 100), (''0.3'', 3 / 10), (''-1.5'', - 15 / 10), (''29.2'', 292 / 10),
         (''15000'', 15000), (''3000'', 3000), (''0.05'', 5 / 100), (''0.08'', 8 / 100)],
      fromisoformat = map_of [(''2024-01-15T12:00:00.000000+00:00'', 1705320000000000)]\<rparr>"

text \<open>
  The second magnitude of the sample, and the event the parser is expected to return for
  the sample.
\<close>

definition mw_mag :: element where
  "mw_mag = sample_magnitude ''smi:ISC/magid=300002'' ''5.1'' ''0.15'' ''Mw''"

definition sample_isc_parsed :: "int \<Rightarrow> NormalizedEvent" where
  "sample_isc_parsed fetched_at =
     \<lparr>event_uid_ne = ''isc:600516598'', source_ne = ''isc'', source_event_id_ne = ''600516598'',
      origin_time_utc_ne = 1705320000000000, latitude_ne = - 15 / 10, longitude_ne = 292 / 10,
      depth_km_ne = 15, magnitude_value_ne = 51 / 10, magnitude_type_ne = ''mw'',
      place_ne = Some ''Lake Kivu Region'', region_ne = Some ''Lake Kivu Region'',
      lat_error_km_ne = Some (5 / 100), lon_error_km_ne = Some (8 / 100),
      depth_error_km_ne = Some 3, mag_error_ne = Some (15 / 100), status_ne = ''reviewed'',
      author_ne = Some ''ISC'', fetched_at_ne = fetched_at, raw_payload_ne = Some []\<rparr>"

section \<open>Per-source ingestion pipeline\<close>

text \<open>
  Embedding of \<^verbatim>\<open>gcp/ingester/source_pipeline.py\<close>. The run identifier, the clock
  readings and the log lines are left out; \<open>now\<close> is the instant the run starts.
\<close>

text \<open>
  Modelled from the spec: an entry of \<^verbatim>\<open>SOURCES\<close> in \<^verbatim>\<open>quake_stream/sources.py\<close>,
  which is not among the sources. Section 6 of the specification lists the per-source
  configuration as \<^verbatim>\<open>base_url\<close>, \<^verbatim>\<open>timeout_seconds\<close>, \<^verbatim>\<open>max_retries\<close> and
  \<^verbatim>\<open>retry_backoff_base\<close>; \<^verbatim>\<open>max_retries\<close> is a Python integer.
\<close>

record SourceConfig =
  base_url :: string
  timeout_seconds :: real
  max_retries :: int
  retry_backoff_base :: real

text \<open>
  What one \<^verbatim>\<open>client.get\<close> of \<^verbatim>\<open>httpx\<close> does: it returns a response, with its
  status code, whether \<^verbatim>\<open>raise_for_status()\<close> raises \<^verbatim>\<open>HTTPStatusError\<close> on it,
  and its text, or it raises a \<^verbatim>\<open>RequestError\<close>.
\<close>

datatype http_outcome = Response int bool string | RequestError

text \<open>
  The effects of a fetch: the number of requests issued and the arguments of the calls of
  \<^verbatim>\<open>asyncio.sleep\<close>, in order.
\<close>

record fetch_trace =
  requests :: nat
  sleeps :: "real list"

text \<open>
  The loop of \<^verbatim>\<open>_fetch_source\<close> over \<^verbatim>\<open>range(config.max_retries + 1)\<close>. The network
  is the function \<open>get\<close> from the number of requests issued before to the outcome of the
  next one. After the loop the function raises \<^verbatim>\<open>RuntimeError\<close>.
\<close>

fun fetch_attempts ::
  "SourceConfig \<Rightarrow> (nat \<Rightarrow> http_outcome) \<Rightarrow> nat list \<Rightarrow> fetch_trace \<Rightarrow> (py_error + string) \<times> fetch_trace" where
  "fetch_attempts config get [] tr = (Inl RuntimeError, tr)"
| "fetch_attempts config get (attempt # rest) tr =
     (let tr1 = tr\<lparr>requests := requests tr + 1\<rparr>;
          failed =
            (if int attempt < max_retries config then
               (let backoff = retry_backoff_base config ^ attempt
                in fetch_attempts config get rest (tr1\<lparr>sleeps := sleeps tr1 @ [backoff]\<rparr>))
             else fetch_attempts config get rest tr1)
      in case get (requests tr) of
           Response status_code raises body \<Rightarrow>
             if status_code = 204 then (Inr [], tr1)
             else if raises then failed
             else (Inr body, tr1)
         | RequestError \<Rightarrow> failed)"

definition fetch_source :: "SourceConfig \<Rightarrow> (nat \<Rightarrow> http_outcome) \<Rightarrow> (py_error + string) \<times> fetch_trace" where
  "fetch_source config get =
     fetch_attempts config get [0..<nat (max_retries config + 1)] \<lparr>requests = 0, sleeps = []\<rparr>"

text \<open>
  A parser of \<^verbatim>\<open>PARSER_MAP\<close>: from the payload and \<^verbatim>\<open>fetched_at\<close> to the events, or
  to the message of the exception it raises.
\<close>

type_synonym parser = "string \<Rightarrow> int \<Rightarrow> string + NormalizedEvent list"

text \<open>
  \<^verbatim>\<open>PARSER_MAP\<close> of \<^verbatim>\<open>quake_stream/parsers/__init__.py\<close>. The GeoJSON and the text
  parsers are not among the sources and are parameters.
\<close>

definition PARSER_MAP :: "parser \<Rightarrow> parser \<Rightarrow> parser \<Rightarrow> pylib \<Rightarrow> (string \<times> parser) list" where
  "PARSER_MAP usgs_geojson emsc_geojson fdsn_text lib =
     [(''usgs'', usgs_geojson),
      (''emsc'', emsc_geojson),
      (''gfz'', fdsn_text),
      (''isc'', QuakeMLParser_parse lib ''isc''),
      (''ipgp'', QuakeMLParser_parse lib ''ipgp''),
      (''geonet'', QuakeMLParser_parse lib ''geonet'')]"

record dead_letter =
  dl_source :: string
  dl_source_event_id :: "string option"
  dl_raw_payload :: string
  dl_errors :: "string list"

text \<open>The dictionary \<^verbatim>\<open>run_source_pipeline\<close> returns, without run identifier and duration.\<close>

record run_result =
  res_source :: string
  res_raw_events :: nat
  res_dead_letters :: nat

text \<open>
  The outcome of a run: the result, the events passed to \<^verbatim>\<open>insert_raw_events\<close>, the rows
  passed to \<^verbatim>\<open>insert_dead_letter\<close> (empty when the function is not called), and the
  status, raw count and dead-letter count of the row passed to \<^verbatim>\<open>log_pipeline_run\<close>.
\<close>

record run_outcome =
  run_result :: run_result
  raw_inserted :: "NormalizedEvent list"
  dead_letters_inserted :: "dead_letter list"
  audit_row :: "string \<times> nat \<times> nat"

text \<open>
  What the pipeline takes from outside: the table \<^verbatim>\<open>SOURCES\<close>, the parser table, the
  validator \<^verbatim>\<open>EventParser.validate\<close> of \<^verbatim>\<open>quake_stream/parsers/base.py\<close>, the count
  \<^verbatim>\<open>insert_raw_events\<close> of \<^verbatim>\<open>bq_client.py\<close> returns, and the network.
\<close>

record pipeline_env =
  SOURCES :: "(string \<times> SourceConfig) list"
  parsers :: "(string \<times> parser) list"
  validate :: "NormalizedEvent \<Rightarrow> string list"
  insert_raw_events :: "NormalizedEvent list \<Rightarrow> nat"
  http_get :: "nat \<Rightarrow> http_outcome"

text \<open>The validation loop: its state is \<^verbatim>\<open>(all_events, dead_letters)\<close>.\<close>

fun validate_events ::
  "(NormalizedEvent \<Rightarrow> string list) \<Rightarrow> string \<Rightarrow> NormalizedEvent list
   \<Rightarrow> NormalizedEvent list \<times> dead_letter list \<Rightarrow> NormalizedEvent list \<times> dead_letter list" where
  "validate_events val source_name [] st = st"
| "validate_events val source_name (event # rest) (all_events, dead_letters) =
     (let errors = val event
      in if errors \<noteq> [] then
           validate_events val source_name rest
             (all_events,
              dead_letters @
                [\<lparr>dl_source = source_name,
                  dl_source_event_id = Some (source_event_id_ne event),
                  dl_raw_payload =
                    (if truthy (raw_payload_ne event) then take 5000 (the (raw_payload_ne event))
                     else []),
                  dl_errors = errors\<rparr>])
         else validate_events val source_name rest (all_events @ [event], dead_letters))"

definition run_source_pipeline :: "pipeline_env \<Rightarrow> int \<Rightarrow> string \<Rightarrow> py_error + run_outcome" where
  "run_source_pipeline env now source_name =
     (case map_of (SOURCES env) source_name of
        None \<Rightarrow> Inl ValueError
      | Some config \<Rightarrow>
     (case fst (fetch_source config (http_get env)) of
        Inl e \<Rightarrow> Inl e
      | Inr raw_text \<Rightarrow>
     if py_strip raw_text = [] then
       Inr \<lparr>run_result = \<lparr>res_source = source_name, res_raw_events = 0, res_dead_letters = 0\<rparr>,
            raw_inserted = [], dead_letters_inserted = [], audit_row = (''ok'', 0, 0)\<rparr>
     else
     (case map_of (parsers env) source_name of
        None \<Rightarrow> Inl ValueError
      | Some parser \<Rightarrow>
     let fetched_at = now;
         (events, dead_letters) =
           (case parser raw_text fetched_at of
              Inr events \<Rightarrow> (events, [])
            | Inl exc \<Rightarrow>
                ([], [\<lparr>dl_source = source_name,
                       dl_source_event_id = None,
                       dl_raw_payload = take 10000 raw_text,
                       dl_errors = [''Parse error: '' @ exc]\<rparr>]));
         (all_events, dead_letters) = validate_events (validate env) source_name events ([], dead_letters);
         raw_count = (if all_events \<noteq> [] then insert_raw_events env all_events else 0)
     in Inr \<lparr>run_result = \<lparr>res_source = source_name, res_raw_events = raw_count,
                           res_dead_letters = length dead_letters\<rparr>,
             raw_inserted = all_events,
             dead_letters_inserted = dead_letters,
             audit_row = (''ok'', raw_count, length dead_letters)\<rparr>)))"

text \<open>A sample configuration: two retries, backoff base 2.\<close>

definition sample_config :: SourceConfig where
  "sample_config =
     \<lparr>base_url = ''https://www.isc.ac.uk/fdsnws/event/1/query'', timeout_seconds = 30,
      max_retries = 2, retry_backoff_base = 2\<rparr>"

text \<open>
  A sample environment for the source \<^verbatim>\<open>isc\<close>: the first request returns the payload
  of \<^verbatim>\<open>test_malformed_xml_returns_empty\<close>, which \<^verbatim>\<open>ET.fromstring\<close> rejects, and the
  parsers that are not among the sources raise.
\<close>

definition sample_env :: pipeline_env where
  "sample_env =
     \<lparr>SOURCES = [(''isc'', sample_config)],
      parsers = PARSER_MAP (\<lambda>payload fetched_at. Inl ''not GeoJSON'')
                  (\<lambda>payload fetched_at. Inl ''not GeoJSON'')
                  (\<lambda>payload fetched_at. Inl ''not FDSN text'') sample_lib,
      validate = (\<lambda>event. []),
      insert_raw_events = length,
      http_get = (\<lambda>n. Response 200 False ''<not>valid<xml'')\<rparr>"

section \<open>Properties of the great-circle distance\<close>

lemmas thresholds =
  MAX_TIME_DIFF_SEC_def MAX_DISTANCE_KM_def MAX_MAG_DIFF_def MATCH_SCORE_THRESHOLD_def

lemma sin_half_sq: "(sin (x / 2))\<^sup>2 = (1 - cos x) / 2" for x :: real
proof -
  have "cos (2 * (x / 2)) = 1 - 2 * (sin (x / 2))\<^sup>2" by (rule cos_double_sin)
  moreover have "2 * (x / 2) = x" by simp
  ultimately have "cos x = 1 - 2 * (sin (x / 2))\<^sup>2" by simp
  then show ?thesis by simp
qed

lemma hav_arg_eq:
  "(sin ((p2 - p1) / 2))\<^sup>2 + cos p1 * cos p2 * (sin (d / 2))\<^sup>2
   = (1 - sin p1 * sin p2 - cos p1 * cos p2 * cos d) / 2" for p1 p2 d :: real
  unfolding sin_half_sq by (simp add: cos_diff field_simps)

lemma sin_cos_products_le_1: "\<bar>sin p1 * sin p2\<bar> + \<bar>cos p1 * cos p2\<bar> \<le> 1" for p1 p2 :: real
proof -
  have 1: "\<bar>sin p1 * sin p2\<bar> \<le> ((sin p1)\<^sup>2 + (sin p2)\<^sup>2) / 2"
    using sum_squares_bound[of "\<bar>sin p1\<bar>" "\<bar>sin p2\<bar>"] by (simp add: abs_mult)
  have 2: "\<bar>cos p1 * cos p2\<bar> \<le> ((cos p1)\<^sup>2 + (cos p2)\<^sup>2) / 2"
    using sum_squares_bound[of "\<bar>cos p1\<bar>" "\<bar>cos p2\<bar>"] by (simp add: abs_mult)
  have 3: "(sin p1)\<^sup>2 = 1 - (cos p1)\<^sup>2" "(sin p2)\<^sup>2 = 1 - (cos p2)\<^sup>2"
    by (rule sin_squared_eq)+
  have g: "s \<le> (1 - A + (1 - B)) / 2 \<Longrightarrow> c \<le> (A + B) / 2 \<Longrightarrow> s + c \<le> 1"
    for s c A B :: real by argo
  show ?thesis using 1 2 unfolding 3 by (rule g)
qed

lemma hav_arg_bounds:
  fixes p1 p2 d :: real
  defines "a \<equiv> (sin ((p2 - p1) / 2))\<^sup>2 + cos p1 * cos p2 * (sin (d / 2))\<^sup>2"
  shows "0 \<le> a" and "a \<le> 1"
proof -
  have "\<bar>cos p1 * cos p2 * cos d\<bar> \<le> \<bar>cos p1 * cos p2\<bar>"
    using abs_cos_le_one[of d] by (simp add: abs_mult mult_left_le)
  then have "\<bar>sin p1 * sin p2 + cos p1 * cos p2 * cos d\<bar> \<le> 1"
    using sin_cos_products_le_1[of p1 p2] by linarith
  then show "0 \<le> a" "a \<le> 1" unfolding a_def hav_arg_eq by auto
qed

lemma radians_diff: "radians (x - y) = radians x - radians y"
  by (simp add: radians_def field_simps)

lemma haversine_km_nonneg: "0 \<le> haversine_km lat1 lon1 lat2 lon2"
proof -
  let ?a = "(sin ((radians lat2 - radians lat1) / 2))\<^sup>2
            + cos (radians lat1) * cos (radians lat2) * (sin (radians (lon2 - lon1) / 2))\<^sup>2"
  have "0 \<le> ?a" "?a \<le> 1" using hav_arg_bounds by auto
  then have "sqrt ?a \<in> {0..1}" by (simp add: real_le_lsqrt)
  then have "0 \<le> arcsin (sqrt ?a)" by (rule arcsin_nonneg)
  then show ?thesis by (simp add: haversine_km_def Let_def radians_diff)
qed

lemma sin_half_sq_swap: "(sin ((x - y) / 2))\<^sup>2 = (sin ((y - x) / 2))\<^sup>2" for x y :: real
  unfolding sin_half_sq using cos_minus[of "x - y"] by simp

lemma haversine_km_sym: "haversine_km lat1 lon1 lat2 lon2 = haversine_km lat2 lon2 lat1 lon1"
  by (simp add: haversine_km_def Let_def radians_diff
      sin_half_sq_swap[of "radians lat2"] sin_half_sq_swap[of "radians lon2"] mult.commute)

lemma haversine_km_same: "haversine_km lat lon lat lon = 0"
  by (simp add: haversine_km_def radians_def)

section \<open>The match score\<close>

lemma compute_match_score_unfold:
  "compute_match_score a b =
     (if time_diff_sec a b > 30 \<or> distance_km a b > 100 \<or> mag_diff a b > 1 / 2 then 0
      else (4 / 10) * max 0 (1 - time_diff_sec a b / 30)
         + (4 / 10) * max 0 (1 - distance_km a b / 100)
         + (2 / 10) * max 0 (1 - mag_diff a b / (1 / 2)))"
  by (simp add: compute_match_score_def Let_def thresholds time_diff_sec_def distance_km_def
      mag_diff_def)

lemma distance_km_nonneg: "0 \<le> distance_km a b"
  by (simp add: distance_km_def haversine_km_nonneg)

lemma distance_km_sym: "distance_km a b = distance_km b a"
  unfolding distance_km_def by (rule haversine_km_sym)

lemma time_diff_sec_sym: "time_diff_sec a b = time_diff_sec b a"
proof -
  have "total_seconds (origin_time_utc a - origin_time_utc b)
        = - total_seconds (origin_time_utc b - origin_time_utc a)"
    by (simp add: total_seconds_def diff_divide_distrib)
  then show ?thesis by (simp add: time_diff_sec_def)
qed

lemma mag_diff_sym: "mag_diff a b = mag_diff b a"
  by (simp add: mag_diff_def abs_minus_commute)

lemma time_diff_sec_nonneg: "0 \<le> time_diff_sec a b"
  by (simp add: time_diff_sec_def)

lemma mag_diff_nonneg: "0 \<le> mag_diff a b"
  by (simp add: mag_diff_def)

text \<open>
  Claim C5. For every pair of events, \<^verbatim>\<open>compute_match_score\<close> is 0 when the time
  difference exceeds 30 s, the distance exceeds 100 km or the magnitude difference
  exceeds 0.5, and otherwise is
  \<^verbatim>\<open>0.4 (1 - dt/30) + 0.4 (1 - dist/100) + 0.2 (1 - dmag/0.5)\<close>; it lies between 0 and 1
  and does not depend on the order of its two arguments.
\<close>

theorem compute_match_score_spec:
  "compute_match_score a b =
     (if time_diff_sec a b > 30 \<or> distance_km a b > 100 \<or> mag_diff a b > 1 / 2 then 0
      else (4 / 10) * (1 - time_diff_sec a b / 30)
         + (4 / 10) * (1 - distance_km a b / 100)
         + (2 / 10) * (1 - mag_diff a b / (1 / 2)))
   \<and> 0 \<le> compute_match_score a b
   \<and> compute_match_score a b \<le> 1
   \<and> compute_match_score a b = compute_match_score b a"
proof -
  let ?dt = "time_diff_sec a b" and ?dist = "distance_km a b" and ?dmag = "mag_diff a b"
  have nn: "0 \<le> ?dt" "0 \<le> ?dist" "0 \<le> ?dmag"
    by (rule time_diff_sec_nonneg distance_km_nonneg mag_diff_nonneg)+
  have formula: "compute_match_score a b =
     (if ?dt > 30 \<or> ?dist > 100 \<or> ?dmag > 1 / 2 then 0
      else (4 / 10) * (1 - ?dt / 30) + (4 / 10) * (1 - ?dist / 100)
         + (2 / 10) * (1 - ?dmag / (1 / 2)))"
    unfolding compute_match_score_unfold by (simp add: max_def)
  have lo: "0 \<le> compute_match_score a b"
    unfolding formula using nn by (simp add: field_simps)
  have hi: "compute_match_score a b \<le> 1"
    unfolding formula using nn by (simp add: field_simps)
  have sym: "compute_match_score a b = compute_match_score b a"
    unfolding compute_match_score_unfold
    by (simp only: time_diff_sec_sym[of a b] distance_km_sym[of a b] mag_diff_sym[of a b])
  show ?thesis using formula lo hi sym by blast
qed

theorem compute_match_score_spec_witness:
  "compute_match_score (sample_event ''emsc:eq1'' ''emsc'' 5000000 (26 / 5))
                       (sample_event ''usgs:eq1'' ''usgs'' 0 5) = 64 / 75
   \<and> compute_match_score (sample_event ''usgs:eq1'' ''usgs'' 0 5)
                         (sample_event ''emsc:eq1'' ''emsc'' 5000000 (26 / 5)) = 64 / 75"
  using compute_match_score_spec
          [of "sample_event ''emsc:eq1'' ''emsc'' 5000000 (26 / 5)"
              "sample_event ''usgs:eq1'' ''usgs'' 0 5"]
  by (simp add: time_diff_sec_def distance_km_def mag_diff_def sample_event_def
      total_seconds_def haversine_km_same)

section \<open>Greedy assignment: the two clustering loops\<close>

lemma score_threshold_gate:
  assumes "compute_match_score e a \<ge> MATCH_SCORE_THRESHOLD"
  shows "time_diff_sec e a \<le> 30" and "distance_km e a \<le> 100" and "mag_diff e a \<le> 1 / 2"
  using assms unfolding compute_match_score_unfold
  by (auto simp: thresholds split: if_splits)

lemma best_cluster_greedy_eq:
  "best_cluster_greedy event clusters i st = best_cluster_time_mag event clusters i st"
proof (induction clusters arbitrary: i st)
  case Nil
  show ?case by simp
next
  case (Cons cluster rest)
  obtain bc bs where st: "st = (bc, bs)" by (cases st)
  show ?case
  proof (cases "anchor cluster")
    case (Inl err)
    then show ?thesis by (simp add: st)
  next
    case (Inr anc)
    show ?thesis
    proof (cases "compute_match_score event anc \<ge> MATCH_SCORE_THRESHOLD")
      case True
      from score_threshold_gate[OF True]
      have "\<bar>total_seconds (origin_time_utc event - origin_time_utc anc)\<bar> \<le> MAX_TIME_DIFF_SEC"
        and "\<bar>magnitude_value event - magnitude_value anc\<bar> \<le> MAX_MAG_DIFF"
        by (simp_all add: time_diff_sec_def mag_diff_def thresholds)
      then show ?thesis using Inr Cons.IH by (simp add: st Let_def)
    next
      case False
      then show ?thesis using Inr Cons.IH by (simp add: st Let_def)
    qed
  qed
qed

lemma greedy_loop_eq: "greedy_loop events clusters = sub_cluster_loop events clusters"
  by (induction events arbitrary: clusters)
    (simp_all add: best_cluster_greedy_eq split: sum.splits)

text \<open>
  Claim C6. For every list of events, the greedy fallback \<^verbatim>\<open>_cluster_events_greedy\<close>
  returns the same list of clusters (same members, same order, same \<^verbatim>\<open>best_score\<close>)
  as \<^verbatim>\<open>_sub_cluster_time_mag\<close> applied to the whole list: the gate on time and
  magnitude that only the latter has never changes the outcome, because a score that
  reaches the threshold has already passed the same bounds inside
  \<^verbatim>\<open>compute_match_score\<close>.
\<close>

theorem greedy_is_sub_cluster_global:
  "cluster_events_greedy events = sub_cluster_time_mag events"
  by (simp add: cluster_events_greedy_def sub_cluster_time_mag_def greedy_loop_eq)

lemmas run_simps =
  compute_match_score_def sample_event_def total_seconds_def thresholds anchor_def
  assign_event_def join_cluster_def haversine_km_same

theorem greedy_is_sub_cluster_global_witness:
  "cluster_events_greedy
     [sample_event ''usgs:eq1'' ''usgs'' 0 5, sample_event ''emsc:eq1'' ''emsc'' 5000000 (26 / 5),
      sample_event ''usgs:eq2'' ''usgs'' 7200000000 5]
   = Inr [\<lparr>members = [sample_event ''usgs:eq1'' ''usgs'' 0 5,
                       sample_event ''emsc:eq1'' ''emsc'' 5000000 (26 / 5)],
            best_score = 64 / 75\<rparr>,
          \<lparr>members = [sample_event ''usgs:eq2'' ''usgs'' 7200000000 5], best_score = 0\<rparr>]
   \<and> sub_cluster_time_mag
     [sample_event ''usgs:eq1'' ''usgs'' 0 5, sample_event ''emsc:eq1'' ''emsc'' 5000000 (26 / 5),
      sample_event ''usgs:eq2'' ''usgs'' 7200000000 5]
   = Inr [\<lparr>members = [sample_event ''usgs:eq1'' ''usgs'' 0 5,
                       sample_event ''emsc:eq1'' ''emsc'' 5000000 (26 / 5)],
            best_score = 64 / 75\<rparr>,
          \<lparr>members = [sample_event ''usgs:eq2'' ''usgs'' 7200000000 5], best_score = 0\<rparr>]"
proof -
  have "sub_cluster_time_mag
     [sample_event ''usgs:eq1'' ''usgs'' 0 5, sample_event ''emsc:eq1'' ''emsc'' 5000000 (26 / 5),
      sample_event ''usgs:eq2'' ''usgs'' 7200000000 5]
   = Inr [\<lparr>members = [sample_event ''usgs:eq1'' ''usgs'' 0 5,
                       sample_event ''emsc:eq1'' ''emsc'' 5000000 (26 / 5)],
            best_score = 64 / 75\<rparr>,
          \<lparr>members = [sample_event ''usgs:eq2'' ''usgs'' 7200000000 5], best_score = 0\<rparr>]"
    by (simp add: sub_cluster_time_mag_def run_simps)
  then show ?thesis
    using greedy_is_sub_cluster_global
      [of "[sample_event ''usgs:eq1'' ''usgs'' 0 5, sample_event ''emsc:eq1'' ''emsc'' 5000000 (26 / 5),
      sample_event ''usgs:eq2'' ''usgs'' 7200000000 5]"]
    by simp
qed

subsection \<open>Which cluster an event joins\<close>

lemma anchor_score_anchor: "anchor c = Inr anc \<Longrightarrow> anchor_score event c = compute_match_score event anc"
  by (auto simp: anchor_def anchor_score_def split: list.splits)

lemma anchor_nonempty: "members c \<noteq> [] \<Longrightarrow> \<exists>anc. anchor c = Inr anc"
  by (cases "members c") (simp_all add: anchor_def)

lemma first_best_0:
  assumes "\<forall>c' \<in> set rest. anchor_score event c' \<le> anchor_score event c"
  shows "first_best event (c # rest) 0"
  using assms by (auto simp: first_best_def nth_Cons split: nat.splits)

lemma first_best_Suc:
  assumes "first_best event rest j" and "anchor_score event c < anchor_score event (rest ! j)"
  shows "first_best event (c # rest) (Suc j)"
  using assms by (auto simp: first_best_def nth_Cons less_Suc_eq_0_disj split: nat.splits)

lemma first_best_unique:
  assumes "first_best event clusters i" and "first_best event clusters j"
  shows "i = j"
proof (rule ccontr)
  assume "i \<noteq> j"
  then consider "i < j" | "j < i" by linarith
  then show False
  proof cases
    case 1
    with assms(2) have "anchor_score event (clusters ! i) < anchor_score event (clusters ! j)"
      by (simp add: first_best_def)
    moreover from assms have "anchor_score event (clusters ! j) \<le> anchor_score event (clusters ! i)"
      by (simp add: first_best_def)
    ultimately show False by simp
  next
    case 2
    with assms(1) have "anchor_score event (clusters ! j) < anchor_score event (clusters ! i)"
      by (simp add: first_best_def)
    moreover from assms have "anchor_score event (clusters ! i) \<le> anchor_score event (clusters ! j)"
      by (simp add: first_best_def)
    ultimately show False by simp
  qed
qed

lemma best_cluster_greedy_step:
  assumes "anchor cluster = Inr anc"
  shows "best_cluster_greedy event (cluster # rest) i (bc, bs) =
     (if qualifies event bs cluster
      then best_cluster_greedy event rest (Suc i) (Some i, anchor_score event cluster)
      else best_cluster_greedy event rest (Suc i) (bc, bs))"
  using assms by (simp add: Let_def qualifies_def anchor_score_anchor[OF assms])

lemma best_cluster_greedy_first_best:
  assumes "\<forall>c \<in> set clusters. members c \<noteq> []"
  shows "(\<not> (\<exists>c \<in> set clusters. qualifies event bs c)
            \<and> best_cluster_greedy event clusters i (bc, bs) = Inr (bc, bs))
       \<or> (\<exists>j. first_best event clusters j \<and> qualifies event bs (clusters ! j)
            \<and> best_cluster_greedy event clusters i (bc, bs)
                = Inr (Some (i + j), anchor_score event (clusters ! j)))"
  using assms
proof (induction clusters arbitrary: i bc bs)
  case Nil
  show ?case by simp
next
  case (Cons c rest)
  from Cons.prems have ne: "\<forall>c \<in> set rest. members c \<noteq> []" and "members c \<noteq> []" by simp_all
  then obtain anc where anc: "anchor c = Inr anc" using anchor_nonempty by blast
  note step = best_cluster_greedy_step[OF anc, of event rest i bc bs]
  let ?s0 = "anchor_score event c"
  show ?case
  proof (cases "qualifies event bs c")
    case True
    then have s0: "?s0 \<ge> MATCH_SCORE_THRESHOLD" "?s0 > bs" by (simp_all add: qualifies_def)
    from Cons.IH[OF ne, of ?s0 "Suc i" "Some i"] show ?thesis
    proof (elim disjE conjE exE)
      assume none: "\<not> (\<exists>c \<in> set rest. qualifies event ?s0 c)"
        and r: "best_cluster_greedy event rest (Suc i) (Some i, ?s0) = Inr (Some i, ?s0)"
      have "\<forall>c' \<in> set rest. anchor_score event c' \<le> ?s0"
      proof
        fix c' assume "c' \<in> set rest"
        with none have "\<not> qualifies event ?s0 c'" by blast
        with s0(1) show "anchor_score event c' \<le> ?s0" by (auto simp: qualifies_def)
      qed
      then have "first_best event (c # rest) 0" by (rule first_best_0)
      moreover have "qualifies event bs ((c # rest) ! 0)" using True by simp
      moreover have "best_cluster_greedy event (c # rest) i (bc, bs)
          = Inr (Some (i + 0), anchor_score event ((c # rest) ! 0))"
        using step True r by simp
      ultimately show ?thesis by blast
    next
      fix j
      assume fb: "first_best event rest j" and q: "qualifies event ?s0 (rest ! j)"
        and r: "best_cluster_greedy event rest (Suc i) (Some i, ?s0)
                = Inr (Some (Suc i + j), anchor_score event (rest ! j))"
      from q have lt: "?s0 < anchor_score event (rest ! j)" by (simp add: qualifies_def)
      from fb lt have "first_best event (c # rest) (Suc j)" by (rule first_best_Suc)
      moreover have "qualifies event bs ((c # rest) ! Suc j)"
        using q s0 by (simp add: qualifies_def)
      moreover have "best_cluster_greedy event (c # rest) i (bc, bs)
          = Inr (Some (i + Suc j), anchor_score event ((c # rest) ! Suc j))"
        using step True r by simp
      ultimately show ?thesis by blast
    qed
  next
    case False
    from Cons.IH[OF ne, of bs "Suc i" bc] show ?thesis
    proof (elim disjE conjE exE)
      assume none: "\<not> (\<exists>c \<in> set rest. qualifies event bs c)"
        and r: "best_cluster_greedy event rest (Suc i) (bc, bs) = Inr (bc, bs)"
      from none False have "\<not> (\<exists>c' \<in> set (c # rest). qualifies event bs c')" by simp
      moreover have "best_cluster_greedy event (c # rest) i (bc, bs) = Inr (bc, bs)"
        using step False r by simp
      ultimately show ?thesis by blast
    next
      fix j
      assume fb: "first_best event rest j" and q: "qualifies event bs (rest ! j)"
        and r: "best_cluster_greedy event rest (Suc i) (bc, bs)
                = Inr (Some (Suc i + j), anchor_score event (rest ! j))"
      from q False have lt: "?s0 < anchor_score event (rest ! j)"
        by (auto simp: qualifies_def)
      from fb lt have "first_best event (c # rest) (Suc j)" by (rule first_best_Suc)
      moreover have "qualifies event bs ((c # rest) ! Suc j)" using q by simp
      moreover have "best_cluster_greedy event (c # rest) i (bc, bs)
          = Inr (Some (i + Suc j), anchor_score event ((c # rest) ! Suc j))"
        using step False r by simp
      ultimately show ?thesis by blast
    qed
  qed
qed

lemma join_best_cluster:
  assumes ne: "\<forall>c \<in> set clusters. members c \<noteq> []"
    and q: "\<exists>c \<in> set clusters. qualifies event 0 c"
  shows "\<exists>j. first_best event clusters j
     \<and> MATCH_SCORE_THRESHOLD \<le> anchor_score event (clusters ! j)
     \<and> sub_cluster_loop (event # rest) clusters
         = sub_cluster_loop rest
             (clusters[j := join_cluster (clusters ! j) event (anchor_score event (clusters ! j))])
     \<and> greedy_loop (event # rest) clusters
         = greedy_loop rest
             (clusters[j := join_cluster (clusters ! j) event (anchor_score event (clusters ! j))])"
proof -
  from best_cluster_greedy_first_best[OF ne, of event 0 0 None] q
  obtain j where fb: "first_best event clusters j" and qj: "qualifies event 0 (clusters ! j)"
    and r: "best_cluster_greedy event clusters 0 (None, 0)
            = Inr (Some j, anchor_score event (clusters ! j))"
    by auto
  have r': "best_cluster_time_mag event clusters 0 (None, 0)
            = Inr (Some j, anchor_score event (clusters ! j))"
    using r by (simp add: best_cluster_greedy_eq)
  have "sub_cluster_loop (event # rest) clusters
         = sub_cluster_loop rest
             (clusters[j := join_cluster (clusters ! j) event (anchor_score event (clusters ! j))])"
    by (simp add: r' assign_event_def)
  moreover have "greedy_loop (event # rest) clusters
         = greedy_loop rest
             (clusters[j := join_cluster (clusters ! j) event (anchor_score event (clusters ! j))])"
    by (simp add: r assign_event_def)
  moreover from qj have "MATCH_SCORE_THRESHOLD \<le> anchor_score event (clusters ! j)"
    by (simp add: qualifies_def)
  ultimately show ?thesis using fb by blast
qed

text \<open>
  Claim C1, as amended. For an event whose origin time is exactly 30 s after the
  anchor's and which has the anchor's position and magnitude, the time term of the score
  is 0 and the match score is 0.6, not 0: the guard of \<^verbatim>\<open>compute_match_score\<close> is
  \<^verbatim>\<open>dt > 30\<close>. The score meets the threshold 0.6, so in
  \<^verbatim>\<open>_sub_cluster_time_mag\<close> and in \<^verbatim>\<open>_cluster_events_greedy\<close> the event opens no new
  cluster: in every state of the loop in which the anchor's cluster exists, it is appended
  to the existing cluster whose anchor gives the highest score, the earliest created of
  them, and that is the anchor's cluster whenever the anchor's cluster is this first best
  one. When the anchor and the event are the whole input, the event joins the anchor's
  cluster.
\<close>

theorem boundary_30s_joins:
  assumes "origin_time_utc e = origin_time_utc a + 30000000"
    and "latitude e = latitude a" and "longitude e = longitude a"
    and "magnitude_value e = magnitude_value a"
  shows "compute_match_score e a = 6 / 10
     \<and> sub_cluster_time_mag [a, e] = Inr [\<lparr>members = [a, e], best_score = 6 / 10\<rparr>]
     \<and> cluster_events_greedy [a, e] = Inr [\<lparr>members = [a, e], best_score = 6 / 10\<rparr>]
     \<and> (\<forall>clusters rest i.
          (\<forall>c \<in> set clusters. members c \<noteq> []) \<and> i < length clusters
          \<and> anchor (clusters ! i) = Inr a \<longrightarrow>
          (\<exists>j. first_best e clusters j
             \<and> 6 / 10 \<le> anchor_score e (clusters ! j)
             \<and> sub_cluster_loop (e # rest) clusters
                 = sub_cluster_loop rest
                     (clusters[j := join_cluster (clusters ! j) e (anchor_score e (clusters ! j))])
             \<and> greedy_loop (e # rest) clusters
                 = greedy_loop rest
                     (clusters[j := join_cluster (clusters ! j) e (anchor_score e (clusters ! j))])
             \<and> (first_best e clusters i \<longrightarrow> j = i)))"
proof -
  have score: "compute_match_score e a = 6 / 10"
    using assms by (simp add: compute_match_score_def total_seconds_def thresholds haversine_km_same)
  have sorted: "sort_key origin_time_utc [a, e] = [a, e]"
    using assms by simp
  have sub: "sub_cluster_time_mag [a, e] = Inr [\<lparr>members = [a, e], best_score = 6 / 10\<rparr>]"
    unfolding sub_cluster_time_mag_def sorted
    using assms score
    by (simp add: anchor_def assign_event_def join_cluster_def total_seconds_def thresholds)
  have greedy: "cluster_events_greedy [a, e] = Inr [\<lparr>members = [a, e], best_score = 6 / 10\<rparr>]"
    unfolding cluster_events_greedy_def sorted
    using score
    by (simp add: anchor_def assign_event_def join_cluster_def thresholds)
  have loop: "\<exists>j. first_best e clusters j
             \<and> 6 / 10 \<le> anchor_score e (clusters ! j)
             \<and> sub_cluster_loop (e # rest) clusters
                 = sub_cluster_loop rest
                     (clusters[j := join_cluster (clusters ! j) e (anchor_score e (clusters ! j))])
             \<and> greedy_loop (e # rest) clusters
                 = greedy_loop rest
                     (clusters[j := join_cluster (clusters ! j) e (anchor_score e (clusters ! j))])
             \<and> (first_best e clusters i \<longrightarrow> j = i)"
    if ne: "\<forall>c \<in> set clusters. members c \<noteq> []" and i: "i < length clusters"
      and anc: "anchor (clusters ! i) = Inr a"
    for clusters rest i
  proof -
    have "anchor_score e (clusters ! i) = 6 / 10"
      using anchor_score_anchor[OF anc, of e] score by simp
    then have "qualifies e 0 (clusters ! i)" by (simp add: qualifies_def thresholds)
    moreover have "clusters ! i \<in> set clusters" using i by simp
    ultimately have q: "\<exists>c \<in> set clusters. qualifies e 0 c" by blast
    from join_best_cluster[OF ne q, of rest]
    obtain j where fb: "first_best e clusters j"
      and thr: "MATCH_SCORE_THRESHOLD \<le> anchor_score e (clusters ! j)"
      and s: "sub_cluster_loop (e # rest) clusters
         = sub_cluster_loop rest
             (clusters[j := join_cluster (clusters ! j) e (anchor_score e (clusters ! j))])"
      and g: "greedy_loop (e # rest) clusters
         = greedy_loop rest
             (clusters[j := join_cluster (clusters ! j) e (anchor_score e (clusters ! j))])"
      by blast
    have "first_best e clusters i \<longrightarrow> j = i" using fb first_best_unique by blast
    moreover from thr have "6 / 10 \<le> anchor_score e (clusters ! j)" by (simp add: thresholds)
    ultimately show ?thesis using fb s g by blast
  qed
  from score sub greedy loop show ?thesis by blast
qed

theorem boundary_30s_joins_witness:
  "compute_match_score (sample_event ''gfz:eq1'' ''gfz'' 30000000 5)
                       (sample_event ''usgs:eq1'' ''usgs'' 0 5) = 6 / 10
   \<and> sub_cluster_time_mag
         [sample_event ''usgs:eq1'' ''usgs'' 0 5, sample_event ''gfz:eq1'' ''gfz'' 30000000 5]
       = Inr [\<lparr>members = [sample_event ''usgs:eq1'' ''usgs'' 0 5,
                           sample_event ''gfz:eq1'' ''gfz'' 30000000 5],
                best_score = 6 / 10\<rparr>]
   \<and> (\<exists>j. first_best (sample_event ''gfz:eq1'' ''gfz'' 30000000 5)
              [\<lparr>members = [sample_event ''usgs:eq1'' ''usgs'' 0 5], best_score = 0\<rparr>,
               \<lparr>members = [sample_event ''emsc:eq2'' ''emsc'' 20000000 (11 / 2)], best_score = 0\<rparr>] j
          \<and> 6 / 10 \<le> anchor_score (sample_event ''gfz:eq1'' ''gfz'' 30000000 5)
               ([\<lparr>members = [sample_event ''usgs:eq1'' ''usgs'' 0 5], best_score = 0\<rparr>,
                 \<lparr>members = [sample_event ''emsc:eq2'' ''emsc'' 20000000 (11 / 2)], best_score = 0\<rparr>] ! j))"
proof -
  let ?a = "sample_event ''usgs:eq1'' ''usgs'' 0 5"
  let ?b = "sample_event ''emsc:eq2'' ''emsc'' 20000000 (11 / 2)"
  let ?e = "sample_event ''gfz:eq1'' ''gfz'' 30000000 5"
  let ?cs = "[\<lparr>members = [?a], best_score = 0\<rparr>, \<lparr>members = [?b], best_score = 0\<rparr>]"
  have h: "origin_time_utc ?e = origin_time_utc ?a + 30000000" "latitude ?e = latitude ?a"
    "longitude ?e = longitude ?a" "magnitude_value ?e = magnitude_value ?a"
    by (simp_all add: sample_event_def)
  note t = boundary_30s_joins[OF h]
  from t have 1: "compute_match_score ?e ?a = 6 / 10" by (rule conjunct1)
  from t have 2: "sub_cluster_time_mag [?a, ?e] = Inr [\<lparr>members = [?a, ?e], best_score = 6 / 10\<rparr>]"
    by (elim conjE)
  from t have 3: "\<forall>clusters rest i.
          (\<forall>c \<in> set clusters. members c \<noteq> []) \<and> i < length clusters
          \<and> anchor (clusters ! i) = Inr ?a \<longrightarrow>
          (\<exists>j. first_best ?e clusters j
             \<and> 6 / 10 \<le> anchor_score ?e (clusters ! j)
             \<and> sub_cluster_loop (?e # rest) clusters
                 = sub_cluster_loop rest
                     (clusters[j := join_cluster (clusters ! j) ?e (anchor_score ?e (clusters ! j))])
             \<and> greedy_loop (?e # rest) clusters
                 = greedy_loop rest
                     (clusters[j := join_cluster (clusters ! j) ?e (anchor_score ?e (clusters ! j))])
             \<and> (first_best ?e clusters i \<longrightarrow> j = i))"
    by (elim conjE)
  have pre: "(\<forall>c \<in> set ?cs. members c \<noteq> []) \<and> 0 < length ?cs \<and> anchor (?cs ! 0) = Inr ?a"
    by (simp add: anchor_def)
  from 3[rule_format, OF pre, of "[]"]
  have "\<exists>j. first_best ?e ?cs j \<and> 6 / 10 \<le> anchor_score ?e (?cs ! j)" by blast
  with 1 2 show ?thesis by blast
qed

text \<open>
  The claim as written (score 0, the event does not join) fails at two events of the same
  place and magnitude 30 s apart.
\<close>

theorem boundary_30s_counterexample:
  "time_diff_sec (sample_event ''emsc:eq1'' ''emsc'' 30000000 5) (sample_event ''usgs:eq1'' ''usgs'' 0 5) = 30
   \<and> compute_match_score (sample_event ''emsc:eq1'' ''emsc'' 30000000 5) (sample_event ''usgs:eq1'' ''usgs'' 0 5) \<noteq> 0
   \<and> sub_cluster_time_mag [sample_event ''usgs:eq1'' ''usgs'' 0 5, sample_event ''emsc:eq1'' ''emsc'' 30000000 5]
     = Inr [\<lparr>members = [sample_event ''usgs:eq1'' ''usgs'' 0 5, sample_event ''emsc:eq1'' ''emsc'' 30000000 5], best_score = 6 / 10\<rparr>]
   \<and> cluster_events_greedy [sample_event ''usgs:eq1'' ''usgs'' 0 5, sample_event ''emsc:eq1'' ''emsc'' 30000000 5]
     = Inr [\<lparr>members = [sample_event ''usgs:eq1'' ''usgs'' 0 5, sample_event ''emsc:eq1'' ''emsc'' 30000000 5], best_score = 6 / 10\<rparr>]"
  by (simp add: sub_cluster_time_mag_def cluster_events_greedy_def time_diff_sec_def run_simps)

text \<open>
  With a third report in between, 20 s after the anchor and of magnitude 5.5, the report at
  30 s still does not open a cluster, but joins the cluster of the third report, against
  whose anchor it scores 2/3.
\<close>

lemma boundary_30s_other_cluster:
  "cluster_events_greedy boundary_events
   = Inr [\<lparr>members = [sample_event ''usgs:eq1'' ''usgs'' 0 5], best_score = 0\<rparr>,
          \<lparr>members = [sample_event ''emsc:eq2'' ''emsc'' 20000000 (11 / 2),
                       sample_event ''gfz:eq1'' ''gfz'' 30000000 5],
            best_score = 2 / 3\<rparr>]"
  by (simp add: boundary_events_def cluster_events_greedy_def run_simps)

section \<open>What the assignment loops guarantee of a cluster\<close>

lemma anchored_nonempty: "anchored c \<Longrightarrow> members c \<noteq> []"
  by (auto simp: anchored_def)

lemma anchor_of_anchored: "anchored c \<Longrightarrow> anchor c = Inr (hd (members c))"
  by (auto simp: anchored_def anchor_def split: list.splits)

lemma best_cluster_time_mag_total:
  "list_all anchored clusters \<Longrightarrow> \<exists>st'. best_cluster_time_mag event clusters i st = Inr st'"
proof (induction clusters arbitrary: i st)
  case Nil
  show ?case by simp
next
  case (Cons cluster rest)
  obtain bc bs where st: "st = (bc, bs)" by (cases st)
  from Cons.prems have a: "anchor cluster = Inr (hd (members cluster))" and r: "list_all anchored rest"
    by (simp_all add: anchor_of_anchored)
  show ?case using Cons.IH[OF r] by (simp add: st a Let_def)
qed

lemma best_cluster_time_mag_result:
  assumes "best_cluster_time_mag event clusters i st = Inr (Some j, s)"
  shows "st = (Some j, s) \<or>
         (i \<le> j \<and> j < i + length clusters \<and>
          (\<exists>anc. anchor (clusters ! (j - i)) = Inr anc \<and> compute_match_score event anc = s
                 \<and> s \<ge> MATCH_SCORE_THRESHOLD))"
  using assms
proof (induction clusters arbitrary: i st)
  case Nil
  then show ?case by simp
next
  case (Cons cluster rest)
  obtain bc bs where st: "st = (bc, bs)" by (cases st)
  show ?case
  proof (cases "anchor cluster")
    case (Inl err)
    with Cons.prems show ?thesis by (simp add: st)
  next
    case (Inr anc)
    let ?sc = "compute_match_score event anc"
    let ?gate = "\<bar>total_seconds (origin_time_utc event - origin_time_utc anc)\<bar> \<le> MAX_TIME_DIFF_SEC
                 \<and> \<bar>magnitude_value event - magnitude_value anc\<bar> \<le> MAX_MAG_DIFF"
    show ?thesis
    proof (cases "?gate \<and> ?sc \<ge> MATCH_SCORE_THRESHOLD \<and> ?sc > bs")
      case True
      with Cons.prems Inr have "best_cluster_time_mag event rest (Suc i) (Some i, ?sc) = Inr (Some j, s)"
        by (simp add: st Let_def)
      from Cons.IH[OF this] show ?thesis
      proof
        assume "(Some i, ?sc) = (Some j, s)"
        then show ?thesis using True Inr by simp
      next
        assume "Suc i \<le> j \<and> j < Suc i + length rest \<and>
          (\<exists>anc. anchor (rest ! (j - Suc i)) = Inr anc \<and> compute_match_score event anc = s
                 \<and> s \<ge> MATCH_SCORE_THRESHOLD)"
        moreover from this have "(cluster # rest) ! (j - i) = rest ! (j - Suc i)"
          by (simp add: nth_Cons')
        ultimately show ?thesis by auto
      qed
    next
      case False
      with Cons.prems Inr have "best_cluster_time_mag event rest (Suc i) (bc, bs) = Inr (Some j, s)"
        by (auto simp: st Let_def split: if_splits)
      from Cons.IH[OF this] show ?thesis
      proof
        assume "(bc, bs) = (Some j, s)"
        then show ?thesis by (simp add: st)
      next
        assume "Suc i \<le> j \<and> j < Suc i + length rest \<and>
          (\<exists>anc. anchor (rest ! (j - Suc i)) = Inr anc \<and> compute_match_score event anc = s
                 \<and> s \<ge> MATCH_SCORE_THRESHOLD)"
        moreover from this have "(cluster # rest) ! (j - i) = rest ! (j - Suc i)"
          by (simp add: nth_Cons')
        ultimately show ?thesis by auto
      qed
    qed
  qed
qed

lemma within_thresholds_self: "within_thresholds e e"
  by (simp add: within_thresholds_def time_diff_sec_def distance_km_def mag_diff_def
      total_seconds_def haversine_km_same)

lemma anchored_singleton: "anchored \<lparr>members = [e], best_score = 0\<rparr>"
  by (simp add: anchored_def)

lemma anchored_join:
  assumes "anchored c" and "anchor c = Inr anc" and "follows_anchor anc e"
  shows "anchored (join_cluster c e s)"
  using assms by (auto simp: anchored_def join_cluster_def anchor_def split: list.splits)

lemma members_join: "members (join_cluster c e s) = members c @ [e]"
  by (simp add: join_cluster_def)

lemma loop_inv_step:
  assumes inv: "loop_inv clusters (event # rest)"
    and best: "best_cluster_time_mag event clusters 0 (None, 0) = Inr st"
  shows "loop_inv (assign_event clusters event st) rest"
proof -
  from inv have srt: "sorted (map origin_time_utc (event # rest))"
    and anc: "list_all anchored clusters"
    and le: "\<forall>c \<in> set clusters. \<forall>m \<in> set (members c). \<forall>e \<in> set (event # rest).
        origin_time_utc m \<le> origin_time_utc e"
    by (simp_all add: loop_inv_def)
  from srt have srt': "sorted (map origin_time_utc rest)"
    and ev_le: "\<forall>e \<in> set rest. origin_time_utc event \<le> origin_time_utc e"
    by auto
  obtain bc s where st: "st = (bc, s)" by (cases st)
  show ?thesis
  proof (cases bc)
    case None
    then have new: "assign_event clusters event st = clusters @ [\<lparr>members = [event], best_score = 0\<rparr>]"
      by (simp add: assign_event_def st)
    show ?thesis unfolding new loop_inv_def
      using srt' anc le ev_le by (auto simp: anchored_singleton)
  next
    case (Some j)
    with best st have "best_cluster_time_mag event clusters 0 (None, 0) = Inr (Some j, s)" by simp
    from best_cluster_time_mag_result[OF this]
    obtain a where j: "j < length clusters" and a: "anchor (clusters ! j) = Inr a"
      and sc: "compute_match_score event a \<ge> MATCH_SCORE_THRESHOLD"
      by auto
    from anc j have cj: "anchored (clusters ! j)" by (simp add: list_all_length)
    from a have a_mem: "a \<in> set (members (clusters ! j))"
      by (auto simp: anchor_def split: list.splits)
    from j have "clusters ! j \<in> set clusters" by simp
    with le a_mem have "origin_time_utc a \<le> origin_time_utc event" by auto
    moreover from score_threshold_gate[OF sc] have "within_thresholds event a"
      by (simp add: within_thresholds_def)
    ultimately have fol: "follows_anchor a event" by (simp add: follows_anchor_def)
    let ?c' = "join_cluster (clusters ! j) event s"
    have upd: "assign_event clusters event st = clusters[j := ?c']"
      by (simp add: assign_event_def st Some)
    have c': "anchored ?c'" by (rule anchored_join[OF cj a fol])
    have all: "list_all anchored (clusters[j := ?c'])"
      using anc c' j unfolding list_all_length by (auto simp: nth_list_update)
    have "\<forall>c \<in> set (clusters[j := ?c']). \<forall>m \<in> set (members c). \<forall>e \<in> set rest.
            origin_time_utc m \<le> origin_time_utc e"
    proof (intro ballI)
      fix c m e
      assume c: "c \<in> set (clusters[j := ?c'])" and m: "m \<in> set (members c)" and e: "e \<in> set rest"
      from c have "c = ?c' \<or> c \<in> set clusters"
        using set_update_subset_insert[of clusters j ?c'] by auto
      then show "origin_time_utc m \<le> origin_time_utc e"
      proof
        assume "c = ?c'"
        with m have "m = event \<or> m \<in> set (members (clusters ! j))" by (auto simp: members_join)
        then show ?thesis using ev_le e le \<open>clusters ! j \<in> set clusters\<close> by auto
      next
        assume "c \<in> set clusters"
        then show ?thesis using le m e by auto
      qed
    qed
    then show ?thesis unfolding upd loop_inv_def using srt' all by simp
  qed
qed

lemma sub_cluster_loop_inv:
  "loop_inv clusters events \<Longrightarrow>
   \<exists>result. sub_cluster_loop events clusters = Inr result \<and> list_all anchored result"
proof (induction events arbitrary: clusters)
  case Nil
  then show ?case by (simp add: loop_inv_def)
next
  case (Cons event rest)
  from Cons.prems have "list_all anchored clusters" by (simp add: loop_inv_def)
  from best_cluster_time_mag_total[OF this]
  obtain st where st: "best_cluster_time_mag event clusters 0 (None, 0) = Inr st" by blast
  from loop_inv_step[OF Cons.prems st] have "loop_inv (assign_event clusters event st) rest" .
  from Cons.IH[OF this] show ?case by (simp add: st)
qed

lemma sub_cluster_time_mag_anchored:
  "\<exists>result. sub_cluster_time_mag events = Inr result \<and> list_all anchored result"
  unfolding sub_cluster_time_mag_def
  by (rule sub_cluster_loop_inv) (simp add: loop_inv_def)

lemma extend_sub_clusters_anchored:
  "list_all anchored clusters \<Longrightarrow>
   \<exists>result. extend_sub_clusters groups clusters = Inr result \<and> list_all anchored result"
proof (induction groups arbitrary: clusters)
  case Nil
  then show ?case by simp
next
  case (Cons ms rest)
  obtain sub where sub: "sub_cluster_time_mag ms = Inr sub" "list_all anchored sub"
    using sub_cluster_time_mag_anchored by blast
  with Cons.prems have "list_all anchored (clusters @ sub)" by simp
  from Cons.IH[OF this] show ?case by (simp add: sub)
qed

lemma cluster_events_anchored:
  "\<exists>result. cluster_events dbscan events = Inr result \<and> list_all anchored result"
proof (cases "events = []")
  case True
  then show ?thesis by (simp add: cluster_events_def)
next
  case False
  show ?thesis
  proof (cases dbscan)
    case None
    have "cluster_events_greedy events = sub_cluster_time_mag events"
      by (simp add: cluster_events_greedy_def sub_cluster_time_mag_def greedy_loop_eq)
    then show ?thesis
      using sub_cluster_time_mag_anchored[of events] False None by (simp add: cluster_events_def)
  next
    case (Some fit_predict)
    then show ?thesis
      using False extend_sub_clusters_anchored[of "[]"] by (simp add: cluster_events_def Let_def)
  qed
qed

lemma time_diff_sec_le_30_iff:
  "time_diff_sec a b \<le> 30 \<longleftrightarrow> \<bar>origin_time_utc a - origin_time_utc b\<bar> \<le> 30000000"
proof -
  have "time_diff_sec a b = real_of_int \<bar>origin_time_utc a - origin_time_utc b\<bar> / 1000000"
    by (simp add: time_diff_sec_def total_seconds_def)
  also have "\<dots> \<le> 30 \<longleftrightarrow> real_of_int \<bar>origin_time_utc a - origin_time_utc b\<bar> \<le> 30000000"
    by (simp add: field_simps)
  also have "\<dots> \<longleftrightarrow> \<bar>origin_time_utc a - origin_time_utc b\<bar> \<le> 30000000"
    by linarith
  finally show ?thesis .
qed

lemma anchored_props:
  assumes "anchored c"
  shows "\<exists>anc. anchor c = Inr anc \<and>
           (\<forall>m \<in> set (members c). within_thresholds m anc) \<and>
           (\<forall>a \<in> set (members c). \<forall>b \<in> set (members c). time_diff_sec a b \<le> 30)"
proof -
  from assms obtain anc ms where ms: "members c = anc # ms"
    and fol: "\<forall>m \<in> set ms. follows_anchor anc m"
    by (auto simp: anchored_def list_all_iff split: list.splits)
  have anc: "anchor c = Inr anc" by (simp add: anchor_def ms)
  have near: "within_thresholds m anc \<and> origin_time_utc anc \<le> origin_time_utc m"
    if "m \<in> set (members c)" for m
    using that fol by (auto simp: ms follows_anchor_def within_thresholds_self)
  have win: "0 \<le> origin_time_utc m - origin_time_utc anc
             \<and> origin_time_utc m - origin_time_utc anc \<le> 30000000"
    if "m \<in> set (members c)" for m
    using near[OF that] by (auto simp: within_thresholds_def time_diff_sec_le_30_iff)
  have pair: "time_diff_sec a b \<le> 30" if "a \<in> set (members c)" "b \<in> set (members c)" for a b
    using win[OF that(1)] win[OF that(2)] unfolding time_diff_sec_le_30_iff by linarith
  show ?thesis using anc near pair by blast
qed

text \<open>
  Claim C2, as amended. \<^verbatim>\<open>cluster_events\<close>, with DBSCAN or on the greedy fallback
  (\<open>dbscan = None\<close>), never raises, and every cluster it returns has an anchor, its
  first member, such that every member is within the three bounds of the anchor: time
  difference at most 30 s, great-circle distance at most 100 km, magnitude difference at
  most 0.5. Every pair of members is at most 30 s apart, since no member is earlier than
  the anchor. Distance and magnitude are bounded against the anchor only, not between
  any two members.
\<close>

theorem clusters_bounded_by_anchor:
  "\<exists>clusters. cluster_events dbscan events = Inr clusters \<and>
     (\<forall>c \<in> set clusters. \<exists>anc. anchor c = Inr anc \<and>
        (\<forall>m \<in> set (members c). within_thresholds m anc) \<and>
        (\<forall>a \<in> set (members c). \<forall>b \<in> set (members c). time_diff_sec a b \<le> 30))"
proof -
  obtain clusters where r: "cluster_events dbscan events = Inr clusters"
    and a: "list_all anchored clusters"
    using cluster_events_anchored by blast
  from a have "\<forall>c \<in> set clusters. anchored c" by (simp add: list_all_iff)
  then show ?thesis using r anchored_props by blast
qed

lemma cluster_events_fallback: "cluster_events None events = cluster_events_greedy events"
  by (cases events) (simp_all add: cluster_events_def cluster_events_greedy_def)

lemma three_magnitudes_run:
  "cluster_events None
     [sample_event ''usgs:eq1'' ''usgs'' 0 5, sample_event ''emsc:eq1'' ''emsc'' 0 (11 / 2),
      sample_event ''gfz:eq1'' ''gfz'' 0 (9 / 2)]
   = Inr [\<lparr>members = [sample_event ''usgs:eq1'' ''usgs'' 0 5,
                       sample_event ''emsc:eq1'' ''emsc'' 0 (11 / 2),
                       sample_event ''gfz:eq1'' ''gfz'' 0 (9 / 2)],
            best_score = 8 / 10\<rparr>]"
  by (simp add: cluster_events_def cluster_events_greedy_def run_simps)

theorem clusters_bounded_by_anchor_witness:
  "\<exists>anc. anchor \<lparr>members = [sample_event ''usgs:eq1'' ''usgs'' 0 5,
                       sample_event ''emsc:eq1'' ''emsc'' 0 (11 / 2),
                       sample_event ''gfz:eq1'' ''gfz'' 0 (9 / 2)],
            best_score = 8 / 10\<rparr> = Inr anc \<and>
     within_thresholds (sample_event ''gfz:eq1'' ''gfz'' 0 (9 / 2)) anc \<and>
     time_diff_sec (sample_event ''gfz:eq1'' ''gfz'' 0 (9 / 2))
                   (sample_event ''emsc:eq1'' ''emsc'' 0 (11 / 2)) \<le> 30"
  using clusters_bounded_by_anchor
    [of None "[sample_event ''usgs:eq1'' ''usgs'' 0 5, sample_event ''emsc:eq1'' ''emsc'' 0 (11 / 2),
      sample_event ''gfz:eq1'' ''gfz'' 0 (9 / 2)]"]
  unfolding three_magnitudes_run by auto

text \<open>
  The claim as written fails for the pair of non-anchor members: three reports of one
  place and time with magnitudes 5.0, 5.5 and 4.5 form one cluster, in which 5.5 and 4.5
  differ by 1.0.
\<close>

theorem pairwise_bound_counterexample:
  "cluster_events None
     [sample_event ''usgs:eq1'' ''usgs'' 0 5, sample_event ''emsc:eq1'' ''emsc'' 0 (11 / 2),
      sample_event ''gfz:eq1'' ''gfz'' 0 (9 / 2)]
   = Inr [\<lparr>members = [sample_event ''usgs:eq1'' ''usgs'' 0 5,
                       sample_event ''emsc:eq1'' ''emsc'' 0 (11 / 2),
                       sample_event ''gfz:eq1'' ''gfz'' 0 (9 / 2)],
            best_score = 8 / 10\<rparr>]
   \<and> cluster_events_greedy
     [sample_event ''usgs:eq1'' ''usgs'' 0 5, sample_event ''emsc:eq1'' ''emsc'' 0 (11 / 2),
      sample_event ''gfz:eq1'' ''gfz'' 0 (9 / 2)]
   = Inr [\<lparr>members = [sample_event ''usgs:eq1'' ''usgs'' 0 5,
                       sample_event ''emsc:eq1'' ''emsc'' 0 (11 / 2),
                       sample_event ''gfz:eq1'' ''gfz'' 0 (9 / 2)],
            best_score = 8 / 10\<rparr>]
   \<and> mag_diff (sample_event ''emsc:eq1'' ''emsc'' 0 (11 / 2))
               (sample_event ''gfz:eq1'' ''gfz'' 0 (9 / 2)) = 1
   \<and> \<not> within_thresholds (sample_event ''emsc:eq1'' ''emsc'' 0 (11 / 2))
                           (sample_event ''gfz:eq1'' ''gfz'' 0 (9 / 2))"
  by (simp add: cluster_events_def cluster_events_greedy_def run_simps within_thresholds_def
      mag_diff_def)

subsection \<open>The distance between two members of a cluster\<close>

lemma pi_ge_3: "3 \<le> pi"
proof -
  have "sin (pi / 6) \<le> pi / 6" by (rule sin_x_le_x) simp
  then show ?thesis by (simp add: sin_30)
qed

lemma haversine_km_equator:
  assumes "\<bar>lon2 - lon1\<bar> \<le> 180"
  shows "haversine_km 0 lon1 0 lon2 = 6371 * \<bar>lon2 - lon1\<bar> * pi / 180"
proof -
  let ?x = "radians (lon2 - lon1) / 2"
  have x: "\<bar>?x\<bar> \<le> pi / 2"
  proof -
    have "\<bar>?x\<bar> = \<bar>lon2 - lon1\<bar> * pi / 360" by (simp add: radians_def abs_mult)
    also have "\<dots> \<le> 180 * pi / 360" using assms by (simp add: mult_right_mono)
    finally show ?thesis by simp
  qed
  have "sqrt ((sin ?x)\<^sup>2) = \<bar>sin ?x\<bar>" by simp
  also have "\<dots> = sin \<bar>?x\<bar>"
  proof (cases "0 \<le> ?x")
    case True
    then have "0 \<le> sin ?x" using x by (intro sin_ge_zero) auto
    then show ?thesis using True by simp
  next
    case False
    then have "0 \<le> sin (- ?x)" using x by (intro sin_ge_zero) auto
    then show ?thesis using False by simp
  qed
  finally have "arcsin (sqrt ((sin ?x)\<^sup>2)) = arcsin (sin \<bar>?x\<bar>)" by simp
  also have "\<dots> = \<bar>?x\<bar>" using x by (intro arcsin_sin) auto
  also have "\<dots> = \<bar>lon2 - lon1\<bar> * pi / 360"
    by (simp add: radians_def abs_mult)
  finally have eq: "arcsin (sqrt ((sin ?x)\<^sup>2)) = \<bar>lon2 - lon1\<bar> * pi / 360" .
  have "haversine_km 0 lon1 0 lon2 = 2 * 6371 * arcsin (sqrt ((sin ?x)\<^sup>2))"
    by (simp add: haversine_km_def radians_def[of 0])
  also have "\<dots> = 6371 * \<bar>lon2 - lon1\<bar> * pi / 180"
    unfolding eq by simp
  finally show ?thesis .
qed

lemma equator_half_degree:
  "distance_km (equator_event u s (1 / 2)) (equator_event u' s' 0) = 6371 * pi / 360"
  "distance_km (equator_event u s (- (1 / 2))) (equator_event u' s' 0) = 6371 * pi / 360"
  "distance_km (equator_event u s (1 / 2)) (equator_event u' s' (- (1 / 2))) = 6371 * pi / 180"
  by (simp_all add: distance_km_def equator_event_def haversine_km_equator)

lemma equator_score:
  assumes "distance_km e a = 6371 * pi / 360" and "origin_time_utc e = origin_time_utc a"
    and "magnitude_value e = magnitude_value a"
  shows "compute_match_score e a = 1 - 6371 * pi / 90000"
proof -
  have "6371 * pi / 360 \<le> 100" using pi_less_4 by simp
  then have "compute_match_score e a = 4 / 10 + (4 / 10) * (1 - (6371 * pi / 360) / 100) + 2 / 10"
    unfolding compute_match_score_unfold assms(1)
    by (simp add: time_diff_sec_def mag_diff_def total_seconds_def assms(2,3))
  then show ?thesis by (simp add: field_simps)
qed

lemma equator_score_ge: "6 / 10 \<le> 1 - 6371 * pi / 90000" "0 < 1 - 6371 * pi / 90000"
  using pi_less_4 by simp_all

text \<open>
  The distance bound fails between two non-anchor members as well: on the equator, two
  reports half a degree east and half a degree west of the anchor are each about 55.6 km
  from it and join its cluster, and are about 111.2 km from each other.
\<close>

lemma distance_chain_counterexample:
  "cluster_events None
     [equator_event ''usgs:eq1'' ''usgs'' 0, equator_event ''emsc:eq1'' ''emsc'' (1 / 2),
      equator_event ''gfz:eq1'' ''gfz'' (- (1 / 2))]
   = Inr [\<lparr>members = [equator_event ''usgs:eq1'' ''usgs'' 0,
                       equator_event ''emsc:eq1'' ''emsc'' (1 / 2),
                       equator_event ''gfz:eq1'' ''gfz'' (- (1 / 2))],
            best_score = 1 - 6371 * pi / 90000\<rparr>]
   \<and> distance_km (equator_event ''emsc:eq1'' ''emsc'' (1 / 2))
                  (equator_event ''gfz:eq1'' ''gfz'' (- (1 / 2))) > 100"
proof -
  let ?e0 = "equator_event ''usgs:eq1'' ''usgs'' 0"
  let ?e1 = "equator_event ''emsc:eq1'' ''emsc'' (1 / 2)"
  let ?e2 = "equator_event ''gfz:eq1'' ''gfz'' (- (1 / 2))"
  have s1: "compute_match_score ?e1 ?e0 = 1 - 6371 * pi / 90000"
    by (rule equator_score) (simp_all add: equator_half_degree, simp_all add: equator_event_def)
  have s2: "compute_match_score ?e2 ?e0 = 1 - 6371 * pi / 90000"
    by (rule equator_score) (simp_all add: equator_half_degree, simp_all add: equator_event_def)
  have srt: "sort_key origin_time_utc [?e0, ?e1, ?e2] = [?e0, ?e1, ?e2]"
    by (simp add: equator_event_def)
  have t: "origin_time_utc ?e0 = 0" "origin_time_utc ?e1 = 0" "origin_time_utc ?e2 = 0"
    "magnitude_value ?e0 = 5" "magnitude_value ?e1 = 5" "magnitude_value ?e2 = 5"
    by (simp_all add: equator_event_def)
  have run: "cluster_events None [?e0, ?e1, ?e2]
    = Inr [\<lparr>members = [?e0, ?e1, ?e2], best_score = 1 - 6371 * pi / 90000\<rparr>]"
    unfolding cluster_events_def cluster_events_greedy_def srt
    using equator_score_ge
    by (simp add: s1 s2 anchor_def assign_event_def join_cluster_def thresholds)
  have "100 < 6371 * pi / 180" using pi_ge_3 by simp
  then show ?thesis using run by (simp add: equator_half_degree)
qed

section \<open>Canonical record selection\<close>

lemma py_index_None_iff: "py_index xs x = None \<longleftrightarrow> x \<notin> set xs"
  by (induction xs) (auto split: option.splits)

lemma py_index_Some:
  "py_index xs x = Some i \<Longrightarrow> i < length xs \<and> xs ! i = x \<and> (\<forall>k < i. xs ! k \<noteq> x)"
proof (induction xs arbitrary: i)
  case Nil
  then show ?case by simp
next
  case (Cons y ys)
  show ?case
  proof (cases "y = x")
    case True
    with Cons.prems show ?thesis by simp
  next
    case False
    with Cons.prems obtain i' where i': "py_index ys x = Some i'" "i = Suc i'"
      by (auto split: option.splits)
    from Cons.IH[OF i'(1)] False show ?thesis
      by (auto simp: i'(2) nth_Cons split: nat.splits)
  qed
qed

lemma source_rank_listed:
  assumes "source e \<in> set priority"
  shows "source_rank priority e < length priority"
    and "priority ! source_rank priority e = source e"
    and "\<forall>k < source_rank priority e. priority ! k \<noteq> source e"
proof -
  from assms obtain i where i: "py_index priority (source e) = Some i"
    using py_index_None_iff[of priority "source e"] by (cases "py_index priority (source e)") auto
  then have r: "source_rank priority e = i" by (simp add: source_rank_def)
  from py_index_Some[OF i] show "source_rank priority e < length priority"
    and "priority ! source_rank priority e = source e"
    and "\<forall>k < source_rank priority e. priority ! k \<noteq> source e"
    unfolding r by auto
qed

lemma source_rank_unlisted:
  "source e \<notin> set priority \<Longrightarrow> source_rank priority e = length priority"
  using py_index_None_iff[of priority "source e"] by (simp add: source_rank_def)

lemma first_minI:
  "ys = pre @ r # post \<Longrightarrow> \<forall>y \<in> set pre. key r < key y \<Longrightarrow> \<forall>y \<in> set post. key r \<le> key y
   \<Longrightarrow> \<exists>pre post. ys = pre @ r # post
         \<and> (\<forall>y \<in> set pre. key r < key y) \<and> (\<forall>y \<in> set post. key r \<le> key y)"
  for key :: "'a \<Rightarrow> nat"
  by blast

lemma min_key_from_first_min:
  "\<exists>pre post. best # xs = pre @ min_key_from key best xs # post
     \<and> (\<forall>y \<in> set pre. key (min_key_from key best xs) < key y)
     \<and> (\<forall>y \<in> set post. key (min_key_from key best xs) \<le> key y)"
proof (induction xs arbitrary: best)
  case Nil
  have "[best] = [] @ best # []" by simp
  then have "\<exists>pre post. [best] = pre @ best # post
         \<and> (\<forall>y \<in> set pre. key best < key y) \<and> (\<forall>y \<in> set post. key best \<le> key y)"
    by (rule first_minI) simp_all
  then show ?case by simp
next
  case (Cons x xs)
  show ?case
  proof (cases "key x < key best")
    case True
    let ?r = "min_key_from key x xs"
    from Cons.IH[of x] obtain pre post where d: "x # xs = pre @ ?r # post"
      and lt: "\<forall>y \<in> set pre. key ?r < key y" and le: "\<forall>y \<in> set post. key ?r \<le> key y"
      by blast
    have "key ?r \<le> key x"
    proof (cases pre)
      case Nil
      with d have "?r = x" by (metis append_Nil list.inject)
      then show ?thesis by simp
    next
      case (Cons p ps)
      with d have "x \<in> set pre" by simp
      with lt show ?thesis by auto
    qed
    with True have "key ?r < key best" by simp
    with lt have lt': "\<forall>y \<in> set (best # pre). key ?r < key y" by simp
    have eq: "best # x # xs = (best # pre) @ ?r # post" using d by simp
    have r: "min_key_from key best (x # xs) = ?r" using True by simp
    show ?thesis unfolding r by (rule first_minI[OF eq lt' le])
  next
    case False
    let ?r = "min_key_from key best xs"
    from Cons.IH[of best] obtain pre post where d: "best # xs = pre @ ?r # post"
      and lt: "\<forall>y \<in> set pre. key ?r < key y" and le: "\<forall>y \<in> set post. key ?r \<le> key y"
      by blast
    have r: "min_key_from key best (x # xs) = ?r" using False by simp
    show ?thesis
    proof (cases pre)
      case Nil
      with d have rb: "?r = best" and xp: "xs = post" by (metis append_Nil list.inject)+
      have "key ?r \<le> key x" unfolding rb using False by simp
      with le have le': "\<forall>y \<in> set (x # post). key ?r \<le> key y" by simp
      have "best # x # xs = best # x # post" using xp by (rule arg_cong)
      then have eq: "best # x # xs = [] @ ?r # (x # post)" unfolding rb by simp
      have lt': "\<forall>y \<in> set []. key ?r < key y" by simp
      show ?thesis unfolding r by (rule first_minI[OF eq lt' le'])
    next
      case (Cons p ps)
      with d have p: "p = best" and xs: "xs = ps @ ?r # post"
        by (metis append_Cons list.inject)+
      from lt Cons p have "key ?r < key best" by simp
      with False have "key ?r < key x" by simp
      with lt Cons p have lt': "\<forall>y \<in> set (best # x # ps). key ?r < key y" by simp
      have "best # x # xs = best # x # (ps @ ?r # post)" using xs by (rule arg_cong)
      then have eq: "best # x # xs = (best # x # ps) @ ?r # post" by simp
      show ?thesis unfolding r by (rule first_minI[OF eq lt' le])
    qed
  qed
qed

lemma py_min_key_first_min:
  assumes "xs \<noteq> []"
  shows "\<exists>r pre post. py_min_key key xs = Inr r \<and> xs = pre @ r # post
     \<and> (\<forall>y \<in> set pre. key r < key y) \<and> (\<forall>y \<in> set post. key r \<le> key y)"
proof -
  from assms obtain x rest where xs: "xs = x # rest" by (cases xs) auto
  let ?r = "min_key_from key x rest"
  have r: "py_min_key key xs = Inr ?r" by (simp add: xs py_min_key_def)
  from min_key_from_first_min[of x rest key]
  obtain pre post where d: "xs = pre @ ?r # post"
    and lt: "\<forall>y \<in> set pre. key ?r < key y"
    and le: "\<forall>y \<in> set post. key ?r \<le> key y"
    unfolding xs by blast
  from r d lt le show ?thesis by blast
qed

text \<open>
  Claim C8. For every non-empty cluster \<^verbatim>\<open>_select_preferred\<close> returns a member \<open>p\<close>;
  \<open>p\<close> has status \<^verbatim>\<open>reviewed\<close> whenever some member has (the candidates are then the
  reviewed members, otherwise all members); among the candidates, in insertion order,
  \<open>p\<close> is the first of those whose source rank is smallest, where the rank of a
  candidate is the first position of its source in the priority list of the region of the
  simple-mean centroid of all members, and the length of that list, which is after every
  listed source, when the source is not listed.
\<close>

theorem select_preferred_spec:
  assumes "members cluster \<noteq> []"
  shows "\<exists>p pre post priority.
     priority = get_source_priority
                  (sum_list (map latitude (members cluster)) / real (length (members cluster)))
                  (sum_list (map longitude (members cluster)) / real (length (members cluster)))
     \<and> select_preferred cluster = Inr p
     \<and> p \<in> set (members cluster)
     \<and> ((\<exists>m \<in> set (members cluster). status m = ''reviewed'') \<longrightarrow> status p = ''reviewed'')
     \<and> candidates cluster = pre @ p # post
     \<and> (\<forall>y \<in> set pre. source_rank priority p < source_rank priority y)
     \<and> (\<forall>y \<in> set post. source_rank priority p \<le> source_rank priority y)
     \<and> (\<forall>e. (source e \<in> set priority \<longrightarrow>
               source_rank priority e < length priority
               \<and> priority ! source_rank priority e = source e
               \<and> (\<forall>k < source_rank priority e. priority ! k \<noteq> source e))
            \<and> (source e \<notin> set priority \<longrightarrow> source_rank priority e = length priority))"
proof -
  let ?alat = "sum_list (map latitude (members cluster)) / real (length (members cluster))"
  let ?alon = "sum_list (map longitude (members cluster)) / real (length (members cluster))"
  let ?priority = "get_source_priority ?alat ?alon"
  let ?reviewed = "filter (\<lambda>m. status m = ''reviewed'') (members cluster)"
  have cand: "(if ?reviewed \<noteq> [] then ?reviewed else members cluster) = candidates cluster"
    by (auto simp: candidates_def filter_empty_conv)
  have ne: "candidates cluster \<noteq> []"
    using assms by (auto simp: candidates_def filter_empty_conv)
  have sel: "select_preferred cluster = py_min_key (source_rank ?priority) (candidates cluster)"
    using assms by (simp add: select_preferred_def avg_lat_def avg_lon_def Let_def cand)
  from py_min_key_first_min[OF ne, of "source_rank ?priority"]
  obtain p pre post where p: "py_min_key (source_rank ?priority) (candidates cluster) = Inr p"
    and d: "candidates cluster = pre @ p # post"
    and lt: "\<forall>y \<in> set pre. source_rank ?priority p < source_rank ?priority y"
    and le: "\<forall>y \<in> set post. source_rank ?priority p \<le> source_rank ?priority y"
    by blast
  from d have pc: "p \<in> set (candidates cluster)" by simp
  then have mem: "p \<in> set (members cluster)" by (auto simp: candidates_def split: if_splits)
  have rev: "(\<exists>m \<in> set (members cluster). status m = ''reviewed'') \<longrightarrow> status p = ''reviewed''"
  proof
    assume r: "\<exists>m \<in> set (members cluster). status m = ''reviewed''"
    then have "candidates cluster = filter (\<lambda>m. status m = ''reviewed'') (members cluster)"
      by (simp add: candidates_def)
    with pc show "status p = ''reviewed''" by simp
  qed
  have rank: "\<forall>e. (source e \<in> set ?priority \<longrightarrow>
               source_rank ?priority e < length ?priority
               \<and> ?priority ! source_rank ?priority e = source e
               \<and> (\<forall>k < source_rank ?priority e. ?priority ! k \<noteq> source e))
            \<and> (source e \<notin> set ?priority \<longrightarrow> source_rank ?priority e = length ?priority)"
    using source_rank_listed source_rank_unlisted by blast
  show ?thesis
    apply (rule exI[of _ p], rule exI[of _ pre], rule exI[of _ post], rule exI[of _ ?priority])
    using sel p mem rev d lt le rank apply (intro conjI)
            apply simp_all
    done
qed

lemma two_source_priority:
  "get_source_priority 35 (- 120) = [''usgs'', ''emsc'', ''gfz'', ''isc'', ''ipgp'', ''geonet'']"
  by (simp add: get_source_priority_def classify_region_def REGION_PRIORITIES_def)

theorem select_preferred_spec_witness:
  "members two_source_cluster \<noteq> []
   \<and> select_preferred two_source_cluster = Inr (sample_event ''usgs:eq1'' ''usgs'' 0 5)
   \<and> (\<exists>p. select_preferred two_source_cluster = Inr p \<and> p \<in> set (members two_source_cluster))"
proof -
  have ne: "members two_source_cluster \<noteq> []" by (simp add: two_source_cluster_def)
  have ev: "select_preferred two_source_cluster = Inr (sample_event ''usgs:eq1'' ''usgs'' 0 5)"
    by (simp add: select_preferred_def two_source_cluster_def avg_lat_def avg_lon_def
        sample_event_def get_source_priority_def classify_region_def REGION_PRIORITIES_def
        py_min_key_def source_rank_def)
  from select_preferred_spec[OF ne]
  have "\<exists>p. select_preferred two_source_cluster = Inr p \<and> p \<in> set (members two_source_cluster)"
    by blast
  with ne ev show ?thesis by simp
qed

section \<open>Weighted centroid\<close>

lemma member_weight_ge_1: "1 \<le> member_weight priority m"
  by (simp add: member_weight_def Let_def)

lemma weighted_sums_eq:
  "weighted_sums priority ms (a, b, c, d) =
     (a + sum_list (map (\<lambda>m. latitude m * member_weight priority m) ms),
      b + sum_list (map (\<lambda>m. longitude m * member_weight priority m) ms),
      c + sum_list (map (\<lambda>m. depth_km m * member_weight priority m) ms),
      d + sum_list (map (member_weight priority) ms))"
  by (induction ms arbitrary: a b c d) (simp_all add: Let_def algebra_simps)

lemma total_weight_ge_length: "real (length ms) \<le> sum_list (map (member_weight priority) ms)"
proof (induction ms)
  case Nil
  show ?case by simp
next
  case (Cons m ms)
  then show ?case using member_weight_ge_1[of priority m] by simp
qed

text \<open>
  Claim C10. In \<^verbatim>\<open>_weighted_mean\<close>, for every non-empty cluster, every member's
  weight \<^verbatim>\<open>max(1, N - rank)\<close> is at least 1, so the total weight the loop ends with
  is at least 1 and the branch \<^verbatim>\<open>total_weight == 0\<close>, which would return the
  anchor's coordinates, is never taken: the function returns the weighted means of
  latitude, longitude and depth over the members.
\<close>

theorem weighted_mean_spec:
  assumes "members cluster \<noteq> []"
  shows "\<exists>priority total.
     priority = get_source_priority
                  (sum_list (map latitude (members cluster)) / real (length (members cluster)))
                  (sum_list (map longitude (members cluster)) / real (length (members cluster)))
     \<and> total = sum_list (map (member_weight priority) (members cluster))
     \<and> (\<forall>m \<in> set (members cluster). 1 \<le> member_weight priority m)
     \<and> snd (snd (snd (weighted_sums priority (members cluster) (0, 0, 0, 0)))) = total
     \<and> 1 \<le> total
     \<and> weighted_mean cluster =
         Inr (sum_list (map (\<lambda>m. latitude m * member_weight priority m) (members cluster)) / total,
              sum_list (map (\<lambda>m. longitude m * member_weight priority m) (members cluster)) / total,
              sum_list (map (\<lambda>m. depth_km m * member_weight priority m) (members cluster)) / total)"
proof -
  let ?priority = "get_source_priority
                  (sum_list (map latitude (members cluster)) / real (length (members cluster)))
                  (sum_list (map longitude (members cluster)) / real (length (members cluster)))"
  let ?total = "sum_list (map (member_weight ?priority) (members cluster))"
  from assms have "1 \<le> real (length (members cluster))"
    by (cases "members cluster") simp_all
  then have total: "1 \<le> ?total"
    using total_weight_ge_length[of "members cluster" ?priority] by linarith
  then have nz: "?total \<noteq> 0" by simp
  have w: "\<forall>m \<in> set (members cluster). 1 \<le> member_weight ?priority m"
    by (simp add: member_weight_ge_1)
  have sums: "snd (snd (snd (weighted_sums ?priority (members cluster) (0, 0, 0, 0)))) = ?total"
    by (simp add: weighted_sums_eq)
  have mean: "weighted_mean cluster =
         Inr (sum_list (map (\<lambda>m. latitude m * member_weight ?priority m) (members cluster)) / ?total,
              sum_list (map (\<lambda>m. longitude m * member_weight ?priority m) (members cluster)) / ?total,
              sum_list (map (\<lambda>m. depth_km m * member_weight ?priority m) (members cluster)) / ?total)"
    using assms nz by (simp add: weighted_mean_def avg_lat_def avg_lon_def Let_def weighted_sums_eq)
  from w sums total mean show ?thesis by blast
qed

theorem weighted_mean_spec_witness:
  "members two_source_cluster \<noteq> [] \<and> weighted_mean two_source_cluster = Inr (35, - 120, 10)"
proof -
  have ne: "members two_source_cluster \<noteq> []" by (simp add: two_source_cluster_def)
  have m: "members two_source_cluster
           = [sample_event ''emsc:eq1'' ''emsc'' 0 5, sample_event ''usgs:eq1'' ''usgs'' 0 5]"
    by (simp add: two_source_cluster_def)
  have w: "member_weight [''usgs'', ''emsc'', ''gfz'', ''isc'', ''ipgp'', ''geonet'']
             (sample_event ''emsc:eq1'' ''emsc'' 0 5) = 5"
     "member_weight [''usgs'', ''emsc'', ''gfz'', ''isc'', ''ipgp'', ''geonet'']
             (sample_event ''usgs:eq1'' ''usgs'' 0 5) = 6"
    by (simp_all add: member_weight_def sample_event_def)
  have l: "latitude (sample_event u s t g) = 35" "longitude (sample_event u s t g) = - 120"
    "depth_km (sample_event u s t g) = 10" for u s t g
    by (simp_all add: sample_event_def)
  from weighted_mean_spec[OF ne] show ?thesis
    unfolding m by (simp add: l two_source_priority w ne m)
qed

section \<open>Magnitude selection in the QuakeML parser\<close>

lemma mag_score_rank:
  "mag_score m =
     (case text_at m [bed ''type''] of
        None \<Rightarrow> 3
      | Some t \<Rightarrow> if py_lower t = ''mw'' then 0 else if py_lower t = ''mb'' then 1
                  else if py_lower t = ''ms'' then 2 else 3)"
  by (auto simp: mag_score_def MAG_PREFERENCE_def truthy_def Let_def py_lower_def
      split: option.splits)

lemma select_best_magnitude_first_min:
  assumes "findall_path [bed ''magnitude''] event_el \<noteq> []"
  shows "\<exists>m pre post. select_best_magnitude event_el = Some m
     \<and> findall_path [bed ''magnitude''] event_el = pre @ m # post
     \<and> (\<forall>y \<in> set pre. mag_score m < mag_score y)
     \<and> (\<forall>y \<in> set post. mag_score m \<le> mag_score y)"
proof -
  from py_min_key_first_min[OF assms, of mag_score]
  obtain m pre post where "py_min_key mag_score (findall_path [bed ''magnitude''] event_el) = Inr m"
    and "findall_path [bed ''magnitude''] event_el = pre @ m # post"
    and "\<forall>y \<in> set pre. mag_score m < mag_score y"
    and "\<forall>y \<in> set post. mag_score m \<le> mag_score y"
    by blast
  moreover from this(1) assms have "select_best_magnitude event_el = Some m"
    by (simp add: select_best_magnitude_def Let_def)
  ultimately show ?thesis by blast
qed

lemma select_best_magnitude_none:
  "findall_path [bed ''magnitude''] event_el = [] \<Longrightarrow> select_best_magnitude event_el = None"
  by (simp add: select_best_magnitude_def)

lemma parse_event_uses_best_magnitude:
  assumes ev: "parse_event lib default_source event_el fetched_at = Inr (Some ev)"
    and nopref: "\<not> truthy (text_at event_el [bed ''preferredMagnitudeID''])"
  shows "\<exists>m mag_str. select_best_magnitude event_el = Some m
     \<and> text_at m [bed ''mag'', bed ''value''] = Some mag_str
     \<and> py_float lib mag_str = Some (magnitude_value_ne ev)
     \<and> magnitude_type_ne ev =
         py_lower (if truthy (text_at m [bed ''type'']) then the (text_at m [bed ''type''])
                   else ''ml'')"
proof -
  note defs = parse_event_def Let_def
  have sid: "extract_event_id (get_attr_default event_el ''publicID'') \<noteq> []"
  proof
    assume "extract_event_id (get_attr_default event_el ''publicID'') = []"
    with ev show False by (simp add: defs)
  qed
  obtain origin where origin: "find_preferred event_el (bed ''origin'')
      (text_at event_el [bed ''preferredOriginID'']) = Some origin"
    using ev sid
    by (cases "find_preferred event_el (bed ''origin'') (text_at event_el [bed ''preferredOriginID''])")
       (simp_all add: defs)
  obtain m where m: "select_best_magnitude event_el = Some m"
    using ev sid origin nopref
    by (cases "select_best_magnitude event_el") (simp_all add: defs)
  have ts: "truthy (text_at origin [bed ''time'', bed ''value''])"
  proof (rule ccontr)
    assume "\<not> truthy (text_at origin [bed ''time'', bed ''value''])"
    with ev sid origin nopref m show False by (simp add: defs)
  qed
  obtain t where t: "parse_time lib (the (text_at origin [bed ''time'', bed ''value''])) = Inr t"
    using ev sid origin nopref m ts
    by (cases "parse_time lib (the (text_at origin [bed ''time'', bed ''value'']))")
       (simp_all add: defs)
  have ll': "\<not> (\<not> truthy (text_at origin [bed ''latitude'', bed ''value''])
                \<or> \<not> truthy (text_at origin [bed ''longitude'', bed ''value'']))"
  proof
    assume "\<not> truthy (text_at origin [bed ''latitude'', bed ''value''])
                \<or> \<not> truthy (text_at origin [bed ''longitude'', bed ''value''])"
    with ev sid origin nopref m ts t show False by (simp add: defs)
  qed
  then have ll: "truthy (text_at origin [bed ''latitude'', bed ''value''])"
           "truthy (text_at origin [bed ''longitude'', bed ''value''])"
    by simp_all
  obtain lat where lat: "float_of lib (the (text_at origin [bed ''latitude'', bed ''value''])) = Inr lat"
    using ev sid origin nopref m ts t ll
    by (cases "float_of lib (the (text_at origin [bed ''latitude'', bed ''value'']))")
       (simp_all add: defs)
  obtain lon where lon: "float_of lib (the (text_at origin [bed ''longitude'', bed ''value''])) = Inr lon"
    using ev sid origin nopref m ts t ll lat
    by (cases "float_of lib (the (text_at origin [bed ''longitude'', bed ''value'']))")
       (simp_all add: defs)
  let ?depth = "(if truthy (text_at origin [bed ''depth'', bed ''value''])
             then (case float_of lib (the (text_at origin [bed ''depth'', bed ''value''])) of
                     Inl e \<Rightarrow> Inl e | Inr d \<Rightarrow> Inr (d / 1000))
             else Inr 0)"
  obtain depth where depth: "?depth = Inr depth"
    using ev sid origin nopref m ts t ll lat lon
    by (cases ?depth) (simp_all add: defs)
  have ms: "truthy (text_at m [bed ''mag'', bed ''value''])"
  proof (rule ccontr)
    assume "\<not> truthy (text_at m [bed ''mag'', bed ''value''])"
    with ev sid origin nopref m ts t ll lat lon depth show False by (simp add: defs)
  qed
  then obtain mag_str where mag_str: "text_at m [bed ''mag'', bed ''value''] = Some mag_str"
    by (auto simp: truthy_def split: option.splits)
  obtain mag where mag: "float_of lib mag_str = Inr mag"
    using ev sid origin nopref m ts t ll lat lon depth ms mag_str
    by (cases "float_of lib mag_str") (simp_all add: defs)
  have "magnitude_value_ne ev = mag \<and> magnitude_type_ne ev =
         py_lower (if truthy (text_at m [bed ''type'']) then the (text_at m [bed ''type''])
                   else ''ml'')"
    using ev sid origin nopref m ts t ll lat lon depth ms mag_str mag by (auto simp: defs)
  moreover from mag have "py_float lib mag_str = Some mag"
    by (auto simp: float_of_def split: option.splits)
  ultimately show ?thesis using m mag_str by blast
qed

subsection \<open>The sample event\<close>

lemmas tree_simps = sample_isc_event_def sample_isc_origin_def sample_magnitude_def node_def leaf_def
  bed_def find_path_def text_at_def truthy_def

lemma sample_no_preferred_magnitude: "text_at sample_isc_event [bed ''preferredMagnitudeID''] = None"
  by (simp add: tree_simps)

lemma sample_mag_scores: "map mag_score (findall_path [bed ''magnitude''] sample_isc_event) = [1, 0, 2]"
  by (simp add: tree_simps mag_score_def MAG_PREFERENCE_def py_lower_def lower_char_def py_strip_def is_space_def)

lemma sample_best_magnitude_raw: "select_best_magnitude sample_isc_event = Some (sample_magnitude ''smi:ISC/magid=300002'' ''5.1'' ''0.15'' ''Mw'')"
  by (simp add: tree_simps select_best_magnitude_def py_min_key_def mag_score_def MAG_PREFERENCE_def py_lower_def lower_char_def py_strip_def is_space_def)

lemma sample_event_id: "extract_event_id ''smi:ISC/evid=600516598'' = ''600516598''"
  by (simp add: extract_event_id_def starts_with_def)

lemma sample_parse_time: "parse_time sample_lib ''2024-01-15T12:00:00.000Z'' = Inr 1705320000000000"
  by (simp add: parse_time_def replace_Z_def split_first_dot_def ljust6_def sample_lib_def eval_nat_numeral)


lemmas str_simps = py_lower_def lower_char_def py_strip_def is_space_def

lemma sample_public_id: "get_attr_default sample_isc_event ''publicID'' = ''smi:ISC/evid=600516598''"
  by (simp add: tree_simps get_attr_default_def get_attr_def)

lemma sample_no_preferred_origin: "text_at sample_isc_event [bed ''preferredOriginID''] = None"
  by (simp add: tree_simps)

lemma sample_origin: "find_preferred sample_isc_event (bed ''origin'') None = Some sample_isc_origin"
  by (simp add: sample_isc_event_def sample_isc_origin_def sample_magnitude_def node_def leaf_def
      bed_def find_preferred_def truthy_def)

lemma sample_origin_texts:
  "text_at sample_isc_origin [bed ''time'', bed ''value''] = Some ''2024-01-15T12:00:00.000Z''"
  "text_at sample_isc_origin [bed ''latitude'', bed ''value''] = Some ''-1.5''"
  "text_at sample_isc_origin [bed ''longitude'', bed ''value''] = Some ''29.2''"
  "text_at sample_isc_origin [bed ''depth'', bed ''value''] = Some ''15000''"
  "text_at sample_isc_origin [bed ''evaluationMode''] = Some ''manual''"
  "text_at sample_isc_origin [bed ''evaluationStatus''] = Some ''reviewed''"
  by (simp_all add: tree_simps str_simps)

lemma sample_mw_texts:
  "text_at mw_mag [bed ''mag'', bed ''value''] = Some ''5.1''"
  "text_at mw_mag [bed ''type''] = Some ''Mw''"
  by (simp_all add: mw_mag_def tree_simps str_simps)

lemma sample_floats:
  "float_of sample_lib ''-1.5'' = Inr (- 15 / 10)"
  "float_of sample_lib ''29.2'' = Inr (292 / 10)"
  "float_of sample_lib ''15000'' = Inr 15000"
  "float_of sample_lib ''5.1'' = Inr (51 / 10)"
  by (simp_all add: float_of_def sample_lib_def)

lemma sample_status: "map_status (Some ''manual'') (Some ''reviewed'') = ''reviewed''"
  by (simp add: map_status_def truthy_def str_simps)

lemma sample_description: "extract_description sample_isc_event = Some ''Lake Kivu Region''"
  by (simp add: extract_description_def tree_simps findtext_path_def region_type_def str_simps)

lemma sample_uncertainties:
  "float_or_none sample_lib sample_isc_origin [bed ''latitude'', bed ''uncertainty''] = Some (5 / 100)"
  "float_or_none sample_lib sample_isc_origin [bed ''longitude'', bed ''uncertainty''] = Some (8 / 100)"
  "float_or_none sample_lib sample_isc_origin [bed ''depth'', bed ''uncertainty''] = Some 3000"
  "float_or_none sample_lib mw_mag [bed ''mag'', bed ''uncertainty''] = Some (15 / 100)"
  by (simp_all add: float_or_none_def mw_mag_def tree_simps str_simps sample_lib_def)

lemma sample_author: "find_path [bed ''creationInfo'', bed ''author''] sample_isc_origin = Some (leaf ''author'' ''ISC'')"
  by (simp add: tree_simps)

lemma lower_Mw: "py_lower ''Mw'' = ''mw''"
  by (simp add: str_simps)

lemma sample_best_magnitude: "select_best_magnitude sample_isc_event = Some mw_mag"
  by (simp add: sample_best_magnitude_raw mw_mag_def)

lemma sample_parse_event: "parse_event sample_lib ''isc'' sample_isc_event fetched_at = Inr (Some (sample_isc_parsed fetched_at))"
  by (simp add: parse_event_def Let_def sample_public_id sample_event_id sample_no_preferred_origin sample_no_preferred_magnitude sample_origin sample_best_magnitude sample_origin_texts sample_parse_time sample_mw_texts sample_floats sample_status sample_description sample_uncertainties sample_author lower_Mw truthy_def
      leaf_def sample_isc_parsed_def)

text \<open>
  Claim C9. When a QuakeML event has no \<^verbatim>\<open>preferredMagnitudeID\<close>, the parser ranks
  each \<^verbatim>\<open>magnitude\<close> child by the position of its lower-cased type in
  \<^verbatim>\<open>[mw, mb, ms]\<close>, with 3, after all listed ones, for any other or missing type; it
  selects the first child, in document order, of smallest rank, and the parsed event
  carries the value and the lower-cased type of that child. For the ISC sample event with
  mb 4.8, Mw 5.1 and Ms 4.5 the parsed magnitude is 5.1 of type \<^verbatim>\<open>mw\<close>.
\<close>

theorem quakeml_magnitude_preference:
  assumes "\<not> truthy (text_at event_el [bed ''preferredMagnitudeID''])"
  shows "(\<forall>m. mag_score m =
            (case text_at m [bed ''type''] of
               None \<Rightarrow> 3
             | Some t \<Rightarrow> if py_lower t = ''mw'' then 0 else if py_lower t = ''mb'' then 1
                         else if py_lower t = ''ms'' then 2 else 3))
     \<and> (findall_path [bed ''magnitude''] event_el \<noteq> [] \<longrightarrow>
          (\<exists>m pre post. select_best_magnitude event_el = Some m
             \<and> findall_path [bed ''magnitude''] event_el = pre @ m # post
             \<and> (\<forall>y \<in> set pre. mag_score m < mag_score y)
             \<and> (\<forall>y \<in> set post. mag_score m \<le> mag_score y)))
     \<and> (\<forall>ev. parse_event lib default_source event_el fetched_at = Inr (Some ev) \<longrightarrow>
          (\<exists>m mag_str. select_best_magnitude event_el = Some m
             \<and> text_at m [bed ''mag'', bed ''value''] = Some mag_str
             \<and> py_float lib mag_str = Some (magnitude_value_ne ev)
             \<and> magnitude_type_ne ev =
                 py_lower (if truthy (text_at m [bed ''type''])
                           then the (text_at m [bed ''type'']) else ''ml'')))
     \<and> \<not> truthy (text_at sample_isc_event [bed ''preferredMagnitudeID''])
     \<and> map (\<lambda>m. text_at m [bed ''type'']) (findall_path [bed ''magnitude''] sample_isc_event)
         = [Some ''mb'', Some ''Mw'', Some ''Ms'']
     \<and> (\<exists>ev. parse_event sample_lib ''isc'' sample_isc_event fetched_at = Inr (Some ev)
             \<and> magnitude_value_ne ev = 51 / 10 \<and> magnitude_type_ne ev = ''mw'')"
proof -
  have rank: "\<forall>m. mag_score m =
            (case text_at m [bed ''type''] of
               None \<Rightarrow> 3
             | Some t \<Rightarrow> if py_lower t = ''mw'' then 0 else if py_lower t = ''mb'' then 1
                         else if py_lower t = ''ms'' then 2 else 3)"
    using mag_score_rank by blast
  have sel: "findall_path [bed ''magnitude''] event_el \<noteq> [] \<longrightarrow>
          (\<exists>m pre post. select_best_magnitude event_el = Some m
             \<and> findall_path [bed ''magnitude''] event_el = pre @ m # post
             \<and> (\<forall>y \<in> set pre. mag_score m < mag_score y)
             \<and> (\<forall>y \<in> set post. mag_score m \<le> mag_score y))"
    using select_best_magnitude_first_min by blast
  have use: "\<forall>ev. parse_event lib default_source event_el fetched_at = Inr (Some ev) \<longrightarrow>
          (\<exists>m mag_str. select_best_magnitude event_el = Some m
             \<and> text_at m [bed ''mag'', bed ''value''] = Some mag_str
             \<and> py_float lib mag_str = Some (magnitude_value_ne ev)
             \<and> magnitude_type_ne ev =
                 py_lower (if truthy (text_at m [bed ''type''])
                           then the (text_at m [bed ''type'']) else ''ml''))"
    using parse_event_uses_best_magnitude[OF _ assms] by blast
  have s1: "\<not> truthy (text_at sample_isc_event [bed ''preferredMagnitudeID''])"
    by (simp add: sample_no_preferred_magnitude truthy_def)
  have s2: "map (\<lambda>m. text_at m [bed ''type'']) (findall_path [bed ''magnitude''] sample_isc_event)
         = [Some ''mb'', Some ''Mw'', Some ''Ms'']"
    by (simp add: tree_simps str_simps)
  have s3: "\<exists>ev. parse_event sample_lib ''isc'' sample_isc_event fetched_at = Inr (Some ev)
             \<and> magnitude_value_ne ev = 51 / 10 \<and> magnitude_type_ne ev = ''mw''"
    by (simp add: sample_parse_event sample_isc_parsed_def)
  from rank sel use s1 s2 s3 show ?thesis by (intro conjI)
qed

theorem quakeml_magnitude_preference_witness:
  "\<not> truthy (text_at sample_isc_event [bed ''preferredMagnitudeID''])
   \<and> select_best_magnitude sample_isc_event = Some mw_mag
   \<and> (\<exists>m mag_str. select_best_magnitude sample_isc_event = Some m
             \<and> text_at m [bed ''mag'', bed ''value''] = Some mag_str
             \<and> py_float sample_lib mag_str = Some (51 / 10))"
proof -
  have h: "\<not> truthy (text_at sample_isc_event [bed ''preferredMagnitudeID''])"
    by (simp add: sample_no_preferred_magnitude truthy_def)
  have p: "parse_event sample_lib ''isc'' sample_isc_event 0 = Inr (Some (sample_isc_parsed 0))"
    by (rule sample_parse_event)
  from quakeml_magnitude_preference[OF h, of sample_lib "''isc''" 0] p
  have "\<exists>m mag_str. select_best_magnitude sample_isc_event = Some m
             \<and> text_at m [bed ''mag'', bed ''value''] = Some mag_str
             \<and> py_float sample_lib mag_str = Some (magnitude_value_ne (sample_isc_parsed 0))"
    by blast
  then have "\<exists>m mag_str. select_best_magnitude sample_isc_event = Some m
             \<and> text_at m [bed ''mag'', bed ''value''] = Some mag_str
             \<and> py_float sample_lib mag_str = Some (51 / 10)"
    by (simp add: sample_isc_parsed_def)
  with h sample_best_magnitude show ?thesis by simp
qed

section \<open>Fetch with retry\<close>

lemma retry_iff:
  "a < nat (max_retries config + 1) \<Longrightarrow> int a < max_retries config \<longleftrightarrow> Suc a < nat (max_retries config + 1)"
  by linarith

lemma fetch_attempts_schedule:
  fixes config get
  defines "n \<equiv> nat (max_retries config + 1)"
  shows "a < n \<Longrightarrow> requests tr = a \<Longrightarrow> sleeps tr = map (\<lambda>i. retry_backoff_base config ^ i) [0..<a]
    \<Longrightarrow> fetch_attempts config get [a..<n] tr = (r, tr')
    \<Longrightarrow> a < requests tr' \<and> requests tr' \<le> n
        \<and> sleeps tr' = map (\<lambda>i. retry_backoff_base config ^ i) [0..<requests tr' - 1]
        \<and> (\<forall>e. r = Inl e \<longrightarrow> e = RuntimeError \<and> requests tr' = n)"
proof (induction "n - a" arbitrary: a tr)
  case 0
  then show ?case by simp
next
  case (Suc k)
  let ?B = "\<lambda>i. retry_backoff_base config ^ i"
  let ?tr1 = "tr\<lparr>requests := requests tr + 1\<rparr>"
  let ?tr2 = "?tr1\<lparr>sleeps := sleeps ?tr1 @ [?B a]\<rparr>"
  let ?failed = "if int a < max_retries config then fetch_attempts config get [Suc a..<n] ?tr2
                 else fetch_attempts config get [Suc a..<n] ?tr1"
  from Suc.prems(1) have upt: "[a..<n] = a # [Suc a..<n]" by (rule upt_conv_Cons)
  have done1: "a < requests ?tr1 \<and> requests ?tr1 \<le> n
        \<and> sleeps ?tr1 = map ?B [0..<requests ?tr1 - 1]"
    using Suc.prems(1,2,3) by simp
  have failed: "a < requests tr' \<and> requests tr' \<le> n
        \<and> sleeps tr' = map ?B [0..<requests tr' - 1]
        \<and> (\<forall>e. r = Inl e \<longrightarrow> e = RuntimeError \<and> requests tr' = n)"
    if f: "?failed = (r, tr')"
  proof (cases "int a < max_retries config")
    case True
    then have lt: "Suc a < n" using Suc.prems(1) retry_iff[of a config] by (simp add: n_def)
    have k: "k = n - Suc a" using Suc.hyps(2) by simp
    have r2: "requests ?tr2 = Suc a" using Suc.prems(2) by simp
    have s2: "sleeps ?tr2 = map ?B [0..<Suc a]" using Suc.prems(3) by simp
    from f True have "fetch_attempts config get [Suc a..<n] ?tr2 = (r, tr')" by simp
    from Suc.hyps(1)[OF k lt r2 s2 this] show ?thesis by simp
  next
    case False
    then have "\<not> Suc a < n" using Suc.prems(1) retry_iff[of a config] by (simp add: n_def)
    with Suc.prems(1) have n: "n = Suc a" by simp
    from f False have "fetch_attempts config get [Suc a..<n] ?tr1 = (r, tr')" by simp
    then have "r = Inl RuntimeError" "tr' = ?tr1" by (simp_all add: n)
    then show ?thesis using done1 Suc.prems(2) n by simp
  qed
  from Suc.prems(4)[unfolded upt fetch_attempts.simps Let_def] have step:
    "(case get (requests tr) of
        Response status_code raises body \<Rightarrow>
          if status_code = 204 then (Inr [], ?tr1)
          else if raises then ?failed
          else (Inr body, ?tr1)
      | RequestError \<Rightarrow> ?failed) = (r, tr')"
    .
  show ?case
  proof (cases "get (requests tr)")
    case RequestError
    with step have "?failed = (r, tr')" by simp
    then show ?thesis by (rule failed)
  next
    case (Response status_code raises body)
    show ?thesis
    proof (cases "status_code = 204")
      case True
      with step Response have "r = Inr []" "tr' = ?tr1" by simp_all
      then show ?thesis using done1 by simp
    next
      case False
      show ?thesis
      proof (cases raises)
        case True
        with step Response False have "?failed = (r, tr')" by simp
        then show ?thesis by (rule failed)
      next
        case nr: False
        with step Response False have "r = Inr body" "tr' = ?tr1" by simp_all
        then show ?thesis using done1 by simp
      qed
    qed
  qed
qed

text \<open>
  Claim C3, as amended. \<^verbatim>\<open>_fetch_source\<close> issues at most \<^verbatim>\<open>max_retries + 1\<close>
  requests, and exactly that many when it ends with \<^verbatim>\<open>RuntimeError\<close>. It sleeps once
  between two consecutive requests, and the sleep before the k-th retry (k = 1, 2, ...)
  is \<^verbatim>\<open>retry_backoff_base ** (k - 1)\<close> seconds, the exponent being the index of the
  attempt that failed, which starts at 0: the first retry waits \<^verbatim>\<open>base ** 0\<close>, one
  second.
\<close>

theorem fetch_source_schedule:
  assumes "fetch_source config get = (r, tr)"
  shows "requests tr \<le> nat (max_retries config + 1)
     \<and> (0 \<le> max_retries config \<longrightarrow> int (requests tr) \<le> max_retries config + 1)
     \<and> length (sleeps tr) = requests tr - 1
     \<and> (\<forall>k. 1 \<le> k \<and> k \<le> length (sleeps tr) \<longrightarrow>
            sleeps tr ! (k - 1) = retry_backoff_base config ^ (k - 1))
     \<and> (\<forall>e. r = Inl e \<longrightarrow> e = RuntimeError \<and> requests tr = nat (max_retries config + 1))"
proof (cases "0 < nat (max_retries config + 1)")
  case False
  with assms have "r = Inl RuntimeError" "tr = \<lparr>requests = 0, sleeps = []\<rparr>"
    by (simp_all add: fetch_source_def)
  with False show ?thesis by simp
next
  case True
  let ?n = "nat (max_retries config + 1)"
  from assms have "fetch_attempts config get [0..<?n] \<lparr>requests = 0, sleeps = []\<rparr> = (r, tr)"
    by (simp add: fetch_source_def)
  from fetch_attempts_schedule[OF True _ _ this]
  have a: "requests tr \<le> ?n"
    and s: "sleeps tr = map (\<lambda>i. retry_backoff_base config ^ i) [0..<requests tr - 1]"
    and e: "\<forall>e. r = Inl e \<longrightarrow> e = RuntimeError \<and> requests tr = ?n"
    by simp_all
  from s have len: "length (sleeps tr) = requests tr - 1" by simp
  have nth: "\<forall>k. 1 \<le> k \<and> k \<le> length (sleeps tr) \<longrightarrow>
            sleeps tr ! (k - 1) = retry_backoff_base config ^ (k - 1)"
  proof (intro allI impI)
    fix k assume k: "1 \<le> k \<and> k \<le> length (sleeps tr)"
    then have "k - 1 < requests tr - 1" using len by linarith
    then show "sleeps tr ! (k - 1) = retry_backoff_base config ^ (k - 1)"
      by (subst s) simp
  qed
  from a have "0 \<le> max_retries config \<longrightarrow> int (requests tr) \<le> max_retries config + 1" by linarith
  with a len nth e show ?thesis by blast
qed

lemma sample_fetch_all_fail:
  "fetch_source sample_config (\<lambda>n. RequestError)
   = (Inl RuntimeError, \<lparr>requests = 3, sleeps = [1, 2]\<rparr>)"
  by (simp add: fetch_source_def sample_config_def upt_rec Let_def)

theorem fetch_source_schedule_witness:
  "requests \<lparr>requests = 3, sleeps = [1, 2 :: real]\<rparr> \<le> nat (max_retries sample_config + 1)
   \<and> sleeps \<lparr>requests = 3, sleeps = [1, 2 :: real]\<rparr> ! (2 - 1)
       = retry_backoff_base sample_config ^ (2 - 1)"
proof -
  let ?tr = "\<lparr>requests = 3, sleeps = [1, 2 :: real]\<rparr>"
  from fetch_source_schedule[OF sample_fetch_all_fail]
  have a: "requests ?tr \<le> nat (max_retries sample_config + 1)"
    and n: "\<forall>k. 1 \<le> k \<and> k \<le> length (sleeps ?tr) \<longrightarrow>
            sleeps ?tr ! (k - 1) = retry_backoff_base sample_config ^ (k - 1)"
    by blast+
  from n have "1 \<le> (2::nat) \<and> 2 \<le> length (sleeps ?tr) \<longrightarrow>
            sleeps ?tr ! (2 - 1) = retry_backoff_base sample_config ^ (2 - 1)"
    by (rule spec)
  then have "sleeps ?tr ! (2 - 1) = retry_backoff_base sample_config ^ (2 - 1)" by simp
  with a show ?thesis by blast
qed

text \<open>
  The claim as written fails with two retries and base 2 when every request fails: the
  two sleeps are 1 s and 2 s, not 2 s and 4 s.
\<close>

theorem first_retry_wait_counterexample:
  "fetch_source sample_config (\<lambda>n. RequestError)
     = (Inl RuntimeError, \<lparr>requests = 3, sleeps = [1, 2]\<rparr>)
   \<and> [1, 2] \<noteq> [retry_backoff_base sample_config ^ 1, retry_backoff_base sample_config ^ 2]
   \<and> (1 :: real) \<noteq> retry_backoff_base sample_config ^ 1"
  by (simp add: fetch_source_def sample_config_def upt_rec Let_def)

section \<open>A payload that does not parse\<close>

lemma run_parse_failure:
  assumes src: "map_of (SOURCES env) source_name = Some config"
    and fetch: "fst (fetch_source config (http_get env)) = Inr raw_text"
    and nonblank: "py_strip raw_text \<noteq> []"
    and parser: "map_of (parsers env) source_name = Some parser"
    and raises: "parser raw_text now = Inl exc"
  shows "run_source_pipeline env now source_name =
     Inr \<lparr>run_result = \<lparr>res_source = source_name, res_raw_events = 0, res_dead_letters = 1\<rparr>,
          raw_inserted = [],
          dead_letters_inserted =
            [\<lparr>dl_source = source_name, dl_source_event_id = None,
              dl_raw_payload = take 10000 raw_text, dl_errors = [''Parse error: '' @ exc]\<rparr>],
          audit_row = (''ok'', 0, 1)\<rparr>"
  using assms by (simp add: run_source_pipeline_def Let_def)

lemma quakeml_unparseable:
  assumes "fromstring lib raw_payload = None"
  shows "QuakeMLParser_parse lib default_source raw_payload fetched_at = Inr []"
  using assms by (simp add: QuakeMLParser_parse_def)

lemma run_parser_empty:
  assumes src: "map_of (SOURCES env) source_name = Some config"
    and fetch: "fst (fetch_source config (http_get env)) = Inr raw_text"
    and nonblank: "py_strip raw_text \<noteq> []"
    and parser: "map_of (parsers env) source_name = Some parser"
    and empty: "parser raw_text now = Inr []"
  shows "run_source_pipeline env now source_name =
     Inr \<lparr>run_result = \<lparr>res_source = source_name, res_raw_events = 0, res_dead_letters = 0\<rparr>,
          raw_inserted = [], dead_letters_inserted = [], audit_row = (''ok'', 0, 0)\<rparr>"
  using assms by (simp add: run_source_pipeline_def Let_def)

lemma quakeml_sources:
  assumes "source_name \<in> {''isc'', ''ipgp'', ''geonet''}"
  shows "map_of (PARSER_MAP usgs_geojson emsc_geojson fdsn_text lib) source_name
         = Some (QuakeMLParser_parse lib source_name)"
  using assms by (auto simp: PARSER_MAP_def)

text \<open>
  Claim C4, as amended. Let the source be configured, the fetch return a payload, and the
  payload be not blank. If the source's parser raises on the payload,
  \<^verbatim>\<open>run_source_pipeline\<close> emits exactly one dead-letter row, holding the first
  10 000 characters of the payload and the message \<^verbatim>\<open>Parse error: ...\<close>, and the run
  succeeds with zero accepted events. For the QuakeML sources \<^verbatim>\<open>isc\<close>, \<^verbatim>\<open>ipgp\<close>
  and \<^verbatim>\<open>geonet\<close> a payload that \<^verbatim>\<open>ET.fromstring\<close> rejects does not make the parser
  raise: it returns the empty list, and the run succeeds with zero accepted events and no
  dead-letter row.
\<close>

theorem unparseable_payload_outcome:
  assumes src: "map_of (SOURCES env) source_name = Some config"
    and fetch: "fst (fetch_source config (http_get env)) = Inr raw_text"
    and nonblank: "py_strip raw_text \<noteq> []"
  shows "(\<forall>parser exc. map_of (parsers env) source_name = Some parser
            \<and> parser raw_text now = Inl exc \<longrightarrow>
          run_source_pipeline env now source_name =
            Inr \<lparr>run_result = \<lparr>res_source = source_name, res_raw_events = 0,
                                res_dead_letters = 1\<rparr>,
                 raw_inserted = [],
                 dead_letters_inserted =
                   [\<lparr>dl_source = source_name, dl_source_event_id = None,
                     dl_raw_payload = take 10000 raw_text,
                     dl_errors = [''Parse error: '' @ exc]\<rparr>],
                 audit_row = (''ok'', 0, 1)\<rparr>)
     \<and> (\<forall>usgs_geojson emsc_geojson fdsn_text lib.
            parsers env = PARSER_MAP usgs_geojson emsc_geojson fdsn_text lib
            \<and> source_name \<in> {''isc'', ''ipgp'', ''geonet''}
            \<and> fromstring lib raw_text = None \<longrightarrow>
          run_source_pipeline env now source_name =
            Inr \<lparr>run_result = \<lparr>res_source = source_name, res_raw_events = 0,
                                res_dead_letters = 0\<rparr>,
                 raw_inserted = [], dead_letters_inserted = [], audit_row = (''ok'', 0, 0)\<rparr>)"
proof (intro conjI allI impI)
  fix parser exc
  assume "map_of (parsers env) source_name = Some parser \<and> parser raw_text now = Inl exc"
  then show "run_source_pipeline env now source_name =
            Inr \<lparr>run_result = \<lparr>res_source = source_name, res_raw_events = 0,
                                res_dead_letters = 1\<rparr>,
                 raw_inserted = [],
                 dead_letters_inserted =
                   [\<lparr>dl_source = source_name, dl_source_event_id = None,
                     dl_raw_payload = take 10000 raw_text,
                     dl_errors = [''Parse error: '' @ exc]\<rparr>],
                 audit_row = (''ok'', 0, 1)\<rparr>"
    using run_parse_failure[OF src fetch nonblank] by blast
next
  fix usgs_geojson emsc_geojson fdsn_text :: parser and lib
  assume a: "parsers env = PARSER_MAP usgs_geojson emsc_geojson fdsn_text lib
            \<and> source_name \<in> {''isc'', ''ipgp'', ''geonet''}
            \<and> fromstring lib raw_text = None"
  then have p: "map_of (parsers env) source_name = Some (QuakeMLParser_parse lib source_name)"
    using quakeml_sources by simp
  from a have "QuakeMLParser_parse lib source_name raw_text now = Inr []"
    by (simp add: quakeml_unparseable)
  from run_parser_empty[OF src fetch nonblank p this]
  show "run_source_pipeline env now source_name =
            Inr \<lparr>run_result = \<lparr>res_source = source_name, res_raw_events = 0,
                                res_dead_letters = 0\<rparr>,
                 raw_inserted = [], dead_letters_inserted = [], audit_row = (''ok'', 0, 0)\<rparr>" .
qed

lemma sample_env_fetch:
  "fst (fetch_source sample_config (http_get sample_env)) = Inr ''<not>valid<xml''"
  by (simp add: fetch_source_def sample_config_def sample_env_def upt_rec Let_def)

lemma sample_env_nonblank: "py_strip ''<not>valid<xml'' \<noteq> []"
  by (simp add: py_strip_def is_space_def)

lemma sample_env_source: "map_of (SOURCES sample_env) ''isc'' = Some sample_config"
  by (simp add: sample_env_def)

text \<open>
  The claim as written fails for the source \<^verbatim>\<open>isc\<close> on the payload of the test
  \<^verbatim>\<open>test_malformed_xml_returns_empty\<close>: no dead-letter row is emitted.
\<close>

theorem unparseable_xml_counterexample:
  "fromstring sample_lib ''<not>valid<xml'' = None
   \<and> run_source_pipeline sample_env 0 ''isc'' =
       Inr \<lparr>run_result = \<lparr>res_source = ''isc'', res_raw_events = 0, res_dead_letters = 0\<rparr>,
            raw_inserted = [], dead_letters_inserted = [], audit_row = (''ok'', 0, 0)\<rparr>"
proof -
  have f: "fromstring sample_lib ''<not>valid<xml'' = None" by (simp add: sample_lib_def)
  have p: "map_of (parsers sample_env) ''isc'' = Some (QuakeMLParser_parse sample_lib ''isc'')"
    by (simp add: sample_env_def PARSER_MAP_def)
  have "QuakeMLParser_parse sample_lib ''isc'' ''<not>valid<xml'' 0 = Inr []"
    using f by (rule quakeml_unparseable)
  from run_parser_empty[OF sample_env_source sample_env_fetch sample_env_nonblank p this] f
  show ?thesis by simp
qed

theorem unparseable_payload_outcome_witness:
  "run_source_pipeline (sample_env\<lparr>parsers := [(''isc'', \<lambda>payload fetched_at. Inl ''syntax error'')]\<rparr>) 0 ''isc'' =
       Inr \<lparr>run_result = \<lparr>res_source = ''isc'', res_raw_events = 0, res_dead_letters = 1\<rparr>,
            raw_inserted = [],
            dead_letters_inserted =
              [\<lparr>dl_source = ''isc'', dl_source_event_id = None,
                dl_raw_payload = ''<not>valid<xml'',
                dl_errors = [''Parse error: syntax error'']\<rparr>],
            audit_row = (''ok'', 0, 1)\<rparr>
   \<and> run_source_pipeline sample_env 0 ''isc'' =
       Inr \<lparr>run_result = \<lparr>res_source = ''isc'', res_raw_events = 0, res_dead_letters = 0\<rparr>,
            raw_inserted = [], dead_letters_inserted = [], audit_row = (''ok'', 0, 0)\<rparr>"
proof -
  let ?env = "sample_env\<lparr>parsers := [(''isc'', \<lambda>payload fetched_at. Inl ''syntax error'')]\<rparr>"
  have s: "map_of (SOURCES ?env) ''isc'' = Some sample_config" by (simp add: sample_env_def)
  have g: "fst (fetch_source sample_config (http_get ?env)) = Inr ''<not>valid<xml''"
    using sample_env_fetch by (simp add: sample_env_def)
  from unparseable_payload_outcome[OF s g sample_env_nonblank, of 0]
  have 1: "run_source_pipeline ?env 0 ''isc'' =
       Inr \<lparr>run_result = \<lparr>res_source = ''isc'', res_raw_events = 0, res_dead_letters = 1\<rparr>,
            raw_inserted = [],
            dead_letters_inserted =
              [\<lparr>dl_source = ''isc'', dl_source_event_id = None,
                dl_raw_payload = ''<not>valid<xml'',
                dl_errors = [''Parse error: syntax error'']\<rparr>],
            audit_row = (''ok'', 0, 1)\<rparr>"
    by simp
  have "parsers sample_env = PARSER_MAP (\<lambda>payload fetched_at. Inl ''not GeoJSON'')
                  (\<lambda>payload fetched_at. Inl ''not GeoJSON'')
                  (\<lambda>payload fetched_at. Inl ''not FDSN text'') sample_lib"
    by (simp add: sample_env_def)
  moreover have "fromstring sample_lib ''<not>valid<xml'' = None" by (simp add: sample_lib_def)
  ultimately have 2: "run_source_pipeline sample_env 0 ''isc'' =
       Inr \<lparr>run_result = \<lparr>res_source = ''isc'', res_raw_events = 0, res_dead_letters = 0\<rparr>,
            raw_inserted = [], dead_letters_inserted = [], audit_row = (''ok'', 0, 0)\<rparr>"
    using unparseable_payload_outcome[OF sample_env_source sample_env_fetch sample_env_nonblank, of 0]
    by blast
  from 1 2 show ?thesis by simp
qed

section \<open>Unified identifier\<close>

lemma replicate_numeral_unfold: "replicate (numeral k) x = x # replicate (pred_numeral k) x"
  by (simp add: numeral_eq_Suc)

lemmas sha_simps =
  sha256_hexdigest_def encode_def sha_pad_def be64_def replicate_numeral_unfold H0_def K256_def
  schedule_def compress_def add32_def rotr_def shr_def not32_def Ch_def Maj_def Sigma0_def
  Sigma1_def sigma0_def sigma1_def hex32_def hex_digit_def

text \<open>The test vector of FIPS 180-4 for the message \<^verbatim>\<open>abc\<close>.\<close>

lemma sha256_abc:
  "sha256_hexdigest (encode ''abc'')
   = ''ba7816bf8f01cfea414140de5dae2223b00361a396177a9cb410ff61f20015ad''"
  by (simp add: sha_simps)






text \<open>
  The cluster with the repeated report is one the engine builds: the second copy scores 1
  against the first.
\<close>

lemma duplicate_report_cluster_built:
  "cluster_events None (members duplicate_report_cluster) = Inr [duplicate_report_cluster]"
  by (simp add: duplicate_report_cluster_def cluster_events_def cluster_events_greedy_def run_simps)




end
